theory Spec2Isabelle
  imports Main
begin

section \<open>Manifest values and Python exceptions\<close>

text \<open>
  The value \<open>tomllib.load\<close> returns is a dict whose values are strings, integers,
  floats, booleans, dates and times, lists and nested dicts. Floats and the date and time
  kinds are kept by their printed form only: the scripts never compute with them.
  A table is an association list in document order; TOML forbids a key twice in one table.
\<close>

datatype toml =
    TString string
  | TInteger int
  | TFloat string
  | TBool bool
  | TDatetime string
  | TDate string
  | TTime string
  | TArray "toml list"
  | TTable "(string \<times> toml) list"

text \<open>
  An exception is a \<open>KeyError\<close> on a key, a \<open>TypeError\<close> with its message, or
  whatever an external call raised: \<open>Raised b m\<close> has \<open>str(e) = m\<close>, and \<open>b\<close> tells
  whether its class derives from \<open>Exception\<close> (\<open>KeyboardInterrupt\<close> and \<open>SystemExit\<close>
  do not, and \<open>except Exception\<close> lets them through).
\<close>

datatype pyexn =
    KeyError string
  | TypeError string
  | Raised bool string

fun is_Exception :: "pyexn \<Rightarrow> bool" where
  "is_Exception (KeyError k) = True"
| "is_Exception (TypeError m) = True"
| "is_Exception (Raised b m) = b"

definition quoted :: "string \<Rightarrow> string" where
  "quoted s = CHR 0x27 # s @ [CHR 0x27]"

text \<open>
  \<open>str(e)\<close>. For a \<open>KeyError\<close> it is the repr of the key, which for the keys the
  scripts look up (plain identifiers) is the key between single quotes.
\<close>

fun exn_str :: "pyexn \<Rightarrow> string" where
  "exn_str (KeyError k) = quoted k"
| "exn_str (TypeError m) = m"
| "exn_str (Raised b m) = m"

fun type_name :: "toml \<Rightarrow> string" where
  "type_name (TString s) = ''str''"
| "type_name (TInteger i) = ''int''"
| "type_name (TFloat x) = ''float''"
| "type_name (TBool b) = ''bool''"
| "type_name (TDatetime x) = ''datetime.datetime''"
| "type_name (TDate x) = ''datetime.date''"
| "type_name (TTime x) = ''datetime.time''"
| "type_name (TArray xs) = ''list''"
| "type_name (TTable kvs) = ''dict''"

text \<open>
  \<open>v[k]\<close> with a string key \<open>k\<close>: a dict looks the key up and raises \<open>KeyError\<close> when
  it is absent; every other kind of value raises \<open>TypeError\<close>.
\<close>

fun subscript :: "toml \<Rightarrow> string \<Rightarrow> pyexn + toml" where
  "subscript (TTable kvs) k =
     (case map_of kvs k of None \<Rightarrow> Inl (KeyError k) | Some v \<Rightarrow> Inr v)"
| "subscript (TString s) k =
     Inl (TypeError (''string indices must be integers, not '' @ quoted ''str''))"
| "subscript (TArray xs) k =
     Inl (TypeError ''list indices must be integers or slices, not str'')"
| "subscript v k =
     Inl (TypeError (quoted (type_name v) @ '' object is not subscriptable''))"

text \<open>
  What iterating over a value yields: the elements of a list, the keys of a dict, the
  characters of a string (each a string of length one); the other kinds are not iterable.
  A \<open>string\<close> here is a list of 8-bit characters, so the characters of a string agree
  with Python's for ASCII text.
\<close>

fun elements :: "toml \<Rightarrow> toml list option" where
  "elements (TArray xs) = Some xs"
| "elements (TTable kvs) = Some (map (\<lambda>kv. TString (fst kv)) kvs)"
| "elements (TString s) = Some (map (\<lambda>c. TString [c]) s)"
| "elements v = None"

text \<open>The iterable of a \<open>for\<close> statement.\<close>

definition iterate :: "toml \<Rightarrow> pyexn + toml list" where
  "iterate v =
     (case elements v of
        Some xs \<Rightarrow> Inr xs
      | None \<Rightarrow> Inl (TypeError (quoted (type_name v) @ '' object is not iterable'')))"

text \<open>The argument after \<open>*\<close> in the call of \<open>nonebot.load_builtin_plugins\<close>.\<close>

definition star_args :: "toml \<Rightarrow> pyexn + toml list" where
  "star_args v =
     (case elements v of
        Some xs \<Rightarrow> Inr xs
      | None \<Rightarrow> Inl (TypeError (''nonebot.plugin.load.load_builtin_plugins() argument after * must be an iterable, not '' @ type_name v)))"

section \<open>The framework and the interpreter, as parameters\<close>

text \<open>
  Everything the scripts call is outside the repository. Each external call is a field of
  the environment: what it raises (\<open>Some e\<close>, \<open>Inl e\<close>) or returns. \<open>'m\<close> is the type of
  imported modules, \<open>'a\<close> the type of adapter classes. The outcome of a call is a function
  of its argument: importing or registering the same thing twice gives the same outcome.
  \<open>str_other\<close> is \<open>str()\<close> on manifest values that are not strings.
\<close>

record ('m, 'a) env =
  nonebot_init :: "pyexn option"
  get_driver :: "pyexn option"
  open_pyproject :: "pyexn option"
  tomllib_load :: "pyexn + (string \<times> toml) list"
  import_module :: "toml \<Rightarrow> pyexn + 'm"
  module_Adapter :: "'m \<Rightarrow> pyexn + 'a"
  register_adapter :: "'a \<Rightarrow> pyexn option"
  str_other :: "toml \<Rightarrow> string"
  load_builtin_plugins :: "toml list \<Rightarrow> pyexn option"
  load_from_toml :: "pyexn option"
  is_main :: bool
  nonebot_run :: "pyexn option"

text \<open>The external calls a run makes, in order, with their arguments.\<close>

datatype 'a call =
    CallInit
  | CallGetDriver
  | CallOpen
  | CallTomlLoad
  | CallImport toml
  | CallRegister 'a
  | CallLogError string
  | CallLoadBuiltin "toml list"
  | CallLoadFromToml
  | CallRun "string option"

text \<open>
  The state of a run: the trace of external calls, the adapter classes the driver
  accepted, the messages given to \<open>logger.error\<close>, and the script's variable
  \<open>pyproject\<close> (unbound before \<open>tomllib.load\<close> returns).
\<close>

record 'a state =
  calls :: "'a call list"
  registered :: "'a list"
  logged :: "string list"
  pyproject :: "toml option"

definition init_state :: "'a state" where
  "init_state = \<lparr>calls = [], registered = [], logged = [], pyproject = None\<rparr>"

text \<open>A run either reaches the end of the code or stops at an uncaught exception.\<close>

datatype 'a result = Finished "'a state" | Uncaught pyexn "'a state"

fun state_of :: "'a result \<Rightarrow> 'a state" where
  "state_of (Finished s) = s"
| "state_of (Uncaught e s) = s"

fun is_Finished :: "'a result \<Rightarrow> bool" where
  "is_Finished (Finished s) = True"
| "is_Finished (Uncaught e s) = False"

text \<open>An external call that returns nothing: record it, then raise or go on.\<close>

definition call :: "'a call \<Rightarrow> pyexn option \<Rightarrow> 'a state \<Rightarrow> ('a state \<Rightarrow> 'a result) \<Rightarrow> 'a result" where
  "call c outcome s k =
     (let s' = s\<lparr>calls := calls s @ [c]\<rparr>
      in case outcome of Some e \<Rightarrow> Uncaught e s' | None \<Rightarrow> k s')"

section \<open>The adapter registration loop\<close>

text \<open>
  The body of the \<open>try\<close> (\<open>nbfile/bot.py\<close> lines 18-19, \<open>templates/bot.py\<close> lines 19-20):
  \<^verbatim>\<open>
  adapter_module = importlib.import_module(adapter["module_name"])
  driver.register_adapter(adapter_module.Adapter)
  \<close>
  It gives the external calls it made and either the exception raised or the adapter
  class whose registration returned.
\<close>

definition try_body :: "('m, 'a) env \<Rightarrow> toml \<Rightarrow> 'a call list \<times> (pyexn + 'a)" where
  "try_body env adapter =
     (case subscript adapter ''module_name'' of
        Inl e \<Rightarrow> ([], Inl e)
      | Inr mn \<Rightarrow>
          (case import_module env mn of
             Inl e \<Rightarrow> ([CallImport mn], Inl e)
           | Inr adapter_module \<Rightarrow>
               (case module_Adapter env adapter_module of
                  Inl e \<Rightarrow> ([CallImport mn], Inl e)
                | Inr cls \<Rightarrow>
                    (case register_adapter env cls of
                       Some e \<Rightarrow> ([CallImport mn, CallRegister cls], Inl e)
                     | None \<Rightarrow> ([CallImport mn, CallRegister cls], Inr cls)))))"

text \<open>What \<open>{v}\<close> in an f-string prints for a manifest value.\<close>

definition py_format :: "('m, 'a) env \<Rightarrow> toml \<Rightarrow> string" where
  "py_format env v = (case v of TString s \<Rightarrow> s | _ \<Rightarrow> str_other env v)"

text \<open>\<^verbatim>\<open>f"Failed to register adapter {adapter['name']}: {e}"\<close>, given the value of \<open>adapter['name']\<close>.\<close>

definition failure_message :: "('m, 'a) env \<Rightarrow> toml \<Rightarrow> pyexn \<Rightarrow> string" where
  "failure_message env n e =
     ''Failed to register adapter '' @ py_format env n @ '': '' @ exn_str e"

definition log_error :: "string \<Rightarrow> 'a state \<Rightarrow> 'a state" where
  "log_error m s = s\<lparr>calls := calls s @ [CallLogError m], logged := logged s @ [m]\<rparr>"

text \<open>
  The loop, the same text in both scripts:
  \<^verbatim>\<open>
  for adapter in adapters:
      try:
          ...
      except Exception as e:
          logger.error(f"Failed to register adapter {adapter['name']}: {e}")
          continue
  \<close>
  An exception that is not an \<open>Exception\<close> passes the handler; \<open>adapter['name']\<close> is
  evaluated inside the handler, where nothing catches what it raises.
\<close>

fun register_loop :: "('m, 'a) env \<Rightarrow> 'a state \<Rightarrow> toml list \<Rightarrow> 'a result" where
  "register_loop env s [] = Finished s"
| "register_loop env s (adapter # rest) =
     (case try_body env adapter of
        (cs, Inr cls) \<Rightarrow>
          register_loop env (s\<lparr>calls := calls s @ cs, registered := registered s @ [cls]\<rparr>) rest
      | (cs, Inl e) \<Rightarrow>
          (let s1 = s\<lparr>calls := calls s @ cs\<rparr>
           in if is_Exception e then
                (case subscript adapter ''name'' of
                   Inl e2 \<Rightarrow> Uncaught e2 s1
                 | Inr n \<Rightarrow> register_loop env (log_error (failure_message env n e) s1) rest)
              else Uncaught e s1))"

section \<open>The two entry points\<close>

text \<open>
  \<open>nbfile/bot.py\<close>, the body of the \<open>with\<close> statement (lines 14-22).
\<close>

definition nbfile_with :: "('m, 'a) env \<Rightarrow> 'a state \<Rightarrow> 'a result" where
  "nbfile_with env s =
     (let s1 = s\<lparr>calls := calls s @ [CallTomlLoad]\<rparr>
      in case tomllib_load env of
           Inl e \<Rightarrow> Uncaught e s1
         | Inr doc \<Rightarrow>
             (let s2 = s1\<lparr>pyproject := Some (TTable doc)\<rparr>
              in case subscript (TTable doc) ''tool'' of
                   Inl e \<Rightarrow> Uncaught e s2
                 | Inr tool \<Rightarrow>
                     (case subscript tool ''nonebot'' of
                        Inl e \<Rightarrow> Uncaught e s2
                      | Inr nb \<Rightarrow>
                          (case subscript nb ''adapters'' of
                             Inl e \<Rightarrow> Uncaught e s2
                           | Inr adapters \<Rightarrow>
                               (case iterate adapters of
                                  Inl e \<Rightarrow> Uncaught e s2
                                | Inr ds \<Rightarrow> register_loop env s2 ds)))))"

text \<open>What follows the \<open>with\<close> statement in both scripts; the argument of \<open>nonebot.run\<close> differs.\<close>

definition load_and_run :: "('m, 'a) env \<Rightarrow> string option \<Rightarrow> 'a state \<Rightarrow> 'a result" where
  "load_and_run env app s =
     call CallLoadFromToml (load_from_toml env) s (\<lambda>s1.
       if is_main env then call (CallRun app) (nonebot_run env) s1 Finished
       else Finished s1)"

definition startup :: "('m, 'a) env \<Rightarrow> ('a state \<Rightarrow> 'a result) \<Rightarrow> 'a result" where
  "startup env k =
     call CallInit (nonebot_init env) init_state (\<lambda>s1.
       call CallGetDriver (get_driver env) s1 (\<lambda>s2.
         call CallOpen (open_pyproject env) s2 k))"

text \<open>\<open>nbfile/bot.py\<close>, the whole script.\<close>

definition nbfile_bot :: "('m, 'a) env \<Rightarrow> 'a result" where
  "nbfile_bot env =
     startup env (\<lambda>s.
       case nbfile_with env s of
         Uncaught e s' \<Rightarrow> Uncaught e s'
       | Finished s' \<Rightarrow> load_and_run env (Some ''__mp_main__:app'') s')"

text \<open>
  \<open>templates/bot.py\<close> line 24, after the loop and still inside the \<open>with\<close> statement:
  \<^verbatim>\<open>nonebot.load_builtin_plugins(*tool_nonebot["builtin_plugins"])\<close>
\<close>

definition templates_after_loop :: "('m, 'a) env \<Rightarrow> toml \<Rightarrow> 'a state \<Rightarrow> 'a result" where
  "templates_after_loop env tool_nonebot s =
     (case subscript tool_nonebot ''builtin_plugins'' of
        Inl e \<Rightarrow> Uncaught e s
      | Inr bp \<Rightarrow>
          (case star_args bp of
             Inl e \<Rightarrow> Uncaught e s
           | Inr ps \<Rightarrow> call (CallLoadBuiltin ps) (load_builtin_plugins env ps) s Finished))"

text \<open>\<open>templates/bot.py\<close>, the body of the \<open>with\<close> statement (lines 14-24).\<close>

definition templates_with :: "('m, 'a) env \<Rightarrow> 'a state \<Rightarrow> 'a result" where
  "templates_with env s =
     (let s1 = s\<lparr>calls := calls s @ [CallTomlLoad]\<rparr>
      in case tomllib_load env of
           Inl e \<Rightarrow> Uncaught e s1
         | Inr doc \<Rightarrow>
             (let s2 = s1\<lparr>pyproject := Some (TTable doc)\<rparr>
              in case subscript (TTable doc) ''tool'' of
                   Inl e \<Rightarrow> Uncaught e s2
                 | Inr tool \<Rightarrow>
                     (case subscript tool ''nonebot'' of
                        Inl e \<Rightarrow> Uncaught e s2
                      | Inr tool_nonebot \<Rightarrow>
                          (case subscript tool_nonebot ''adapters'' of
                             Inl e \<Rightarrow> Uncaught e s2
                           | Inr adapters \<Rightarrow>
                               (case iterate adapters of
                                  Inl e \<Rightarrow> Uncaught e s2
                                | Inr ds \<Rightarrow>
                                    (case register_loop env s2 ds of
                                       Uncaught e s3 \<Rightarrow> Uncaught e s3
                                     | Finished s3 \<Rightarrow> templates_after_loop env tool_nonebot s3))))))"

text \<open>\<open>templates/bot.py\<close>, the whole script.\<close>

definition templates_bot :: "('m, 'a) env \<Rightarrow> 'a result" where
  "templates_bot env =
     startup env (\<lambda>s.
       case templates_with env s of
         Uncaught e s' \<Rightarrow> Uncaught e s'
       | Finished s' \<Rightarrow> load_and_run env None s')"

text \<open>
  The lookups the scripts make on the loaded document: \<open>pyproject["tool"]["nonebot"]\<close>,
  then its \<open>"adapters"\<close>, and in the template its \<open>"builtin_plugins"\<close> unpacked
  as arguments.
\<close>

definition tool_nonebot_of :: "(string \<times> toml) list \<Rightarrow> pyexn + toml" where
  "tool_nonebot_of doc =
     (case subscript (TTable doc) ''tool'' of
        Inl e \<Rightarrow> Inl e
      | Inr tool \<Rightarrow> subscript tool ''nonebot'')"

definition adapters_of :: "(string \<times> toml) list \<Rightarrow> pyexn + toml" where
  "adapters_of doc =
     (case tool_nonebot_of doc of
        Inl e \<Rightarrow> Inl e
      | Inr nb \<Rightarrow> subscript nb ''adapters'')"

definition builtin_plugins_of :: "(string \<times> toml) list \<Rightarrow> pyexn + toml list" where
  "builtin_plugins_of doc =
     (case tool_nonebot_of doc of
        Inl e \<Rightarrow> Inl e
      | Inr nb \<Rightarrow>
          (case subscript nb ''builtin_plugins'' of
             Inl e \<Rightarrow> Inl e
           | Inr bp \<Rightarrow> star_args bp))"

text \<open>The state once the file is open, and once the document is loaded.\<close>

definition opened :: "'a state" where
  "opened = init_state\<lparr>calls := [CallInit, CallGetDriver, CallOpen]\<rparr>"

definition loaded :: "(string \<times> toml) list \<Rightarrow> 'a state" where
  "loaded doc =
     opened\<lparr>calls := [CallInit, CallGetDriver, CallOpen, CallTomlLoad],
       pyproject := Some (TTable doc)\<rparr>"

section \<open>The example plugin\<close>

text \<open>
  \<^verbatim>\<open>hello = on_command("hello", aliases={"hi"}, priority=10, block=True)\<close>
\<close>

record matcher =
  cmd :: string
  aliases :: "string list"
  priority :: nat
  block :: bool

definition hello :: matcher where
  "hello = \<lparr>cmd = ''hello'', aliases = [''hi''], priority = 10, block = True\<rparr>"

text \<open>
  \<open>hello.finish(m)\<close> sends \<open>m\<close> and ends the handler by raising the framework's
  \<open>FinishedException\<close>. The handler's effect is the list of messages it gave to
  \<open>finish\<close>; \<open>extract_plain_text\<close> is the framework's, over its message type \<open>'msg\<close>.
  \<^verbatim>\<open>
  msg = args.extract_plain_text()
  if msg:
      await hello.finish(f"Hello, {msg}!")
  else:
      await hello.finish("Hello, World!")
  \<close>
\<close>

definition finish :: "string \<Rightarrow> string list \<Rightarrow> string list" where
  "finish m sent = sent @ [m]"

definition hello_handler :: "('msg \<Rightarrow> string) \<Rightarrow> 'msg \<Rightarrow> string list" where
  "hello_handler extract_plain_text args =
     (let msg = extract_plain_text args
      in if msg \<noteq> [] then finish (''Hello, '' @ msg @ ''!'') []
         else finish ''Hello, World!'' [])"

text \<open>The phrases a matcher is registered for: the command and its aliases.\<close>

definition commands :: "matcher \<Rightarrow> string list" where
  "commands m = cmd m # aliases m"

text \<open>
  Modelled from the spec: the framework's command dispatch, which is not part of this
  repository. The spec's contract for it: a command registration gives one matcher, bound
  to the primary phrase and to each alias; a message sent with one of these phrases invokes
  the matcher's handler on the text that follows the phrase. The handler is not told
  which phrase was used. A phrase the matcher is not registered for invokes nothing.
\<close>

definition invoke :: "matcher \<Rightarrow> ('msg \<Rightarrow> string) \<Rightarrow> string \<Rightarrow> 'msg \<Rightarrow> string list option" where
  "invoke m extract_plain_text trigger args =
     (if trigger \<in> set (commands m) then Some (hello_handler extract_plain_text args) else None)"

section \<open>Notions the properties are stated with\<close>

text \<open>
  The calls in which the manifest is read: the script's own \<open>tomllib.load(f)\<close>, and its
  call \<open>nonebot.load_from_toml("pyproject.toml")\<close>, in which the framework reads the
  same file to find the plugins.
\<close>

fun is_tomllib_load :: "'a call \<Rightarrow> bool" where
  "is_tomllib_load CallTomlLoad = True"
| "is_tomllib_load c = False"

fun is_read :: "'a call \<Rightarrow> bool" where
  "is_read CallTomlLoad = True"
| "is_read CallLoadFromToml = True"
| "is_read c = False"

text \<open>The calls that register an adapter, and the calls that the loop makes.\<close>

fun is_register_call :: "'a call \<Rightarrow> bool" where
  "is_register_call (CallRegister a) = True"
| "is_register_call c = False"

fun is_loop_call :: "'a call \<Rightarrow> bool" where
  "is_loop_call (CallImport v) = True"
| "is_loop_call (CallRegister a) = True"
| "is_loop_call (CallLogError m) = True"
| "is_loop_call c = False"

text \<open>
  A descriptor resolves when the body of the \<open>try\<close> runs to its end: the module is
  imported, it has an \<open>Adapter\<close>, and the driver accepts it.
\<close>

definition resolves :: "('m, 'a) env \<Rightarrow> toml \<Rightarrow> bool" where
  "resolves env d = (case snd (try_body env d) of Inr cls \<Rightarrow> True | Inl e \<Rightarrow> False)"

definition has_name :: "toml \<Rightarrow> bool" where
  "has_name d = (case subscript d ''name'' of Inr n \<Rightarrow> True | Inl e \<Rightarrow> False)"

text \<open>
  A descriptor the loop gets past: it resolves, or it fails with an \<open>Exception\<close> and
  has a \<open>name\<close> to log.
\<close>

definition tolerated :: "('m, 'a) env \<Rightarrow> toml \<Rightarrow> bool" where
  "tolerated env d =
     (case snd (try_body env d) of
        Inr cls \<Rightarrow> True
      | Inl e \<Rightarrow> is_Exception e \<and> has_name d)"

text \<open>The calls that come after the loop.\<close>

fun is_after_loop_call :: "'a call \<Rightarrow> bool" where
  "is_after_loop_call (CallLoadBuiltin ps) = True"
| "is_after_loop_call CallLoadFromToml = True"
| "is_after_loop_call (CallRun app) = True"
| "is_after_loop_call c = False"

section \<open>A sample environment and sample manifests\<close>

text \<open>
  \<open>str()\<close> on the manifest values that are not strings. Integers print in decimal,
  booleans as \<open>True\<close> and \<open>False\<close>, floats, dates and times by their printed form.
  A list or a dict prints the repr of its parts; the repr of a string is exact for
  printable ASCII text, tab, newline and carriage return (single quotes, unless the string
  has a single quote and no double quote), and inside a list or a dict a date or a time is
  shown by its printed form.
\<close>

fun show_nat :: "nat \<Rightarrow> string" where
  "show_nat n =
     (if n < 10 then [''0123456789'' ! n]
      else show_nat (n div 10) @ [''0123456789'' ! (n mod 10)])"

definition show_int :: "int \<Rightarrow> string" where
  "show_int i = (if i < 0 then CHR ''-'' # show_nat (nat (- i)) else show_nat (nat i))"

definition escape_char :: "bool \<Rightarrow> char \<Rightarrow> string" where
  "escape_char single c =
     (if c = CHR 0x5C then [CHR 0x5C, CHR 0x5C]
      else if c = CHR 0x0A then [CHR 0x5C, CHR ''n'']
      else if c = CHR 0x0D then [CHR 0x5C, CHR ''r'']
      else if c = CHR 0x09 then [CHR 0x5C, CHR ''t'']
      else if single \<and> c = CHR 0x27 then [CHR 0x5C, CHR 0x27]
      else [c])"

definition repr_str :: "string \<Rightarrow> string" where
  "repr_str s =
     (if CHR 0x27 \<in> set s \<and> CHR 0x22 \<notin> set s
      then CHR 0x22 # concat (map (escape_char False) s) @ [CHR 0x22]
      else CHR 0x27 # concat (map (escape_char True) s) @ [CHR 0x27])"

fun join :: "string \<Rightarrow> string list \<Rightarrow> string" where
  "join sep [] = []"
| "join sep [x] = x"
| "join sep (x # y # ys) = x @ sep @ join sep (y # ys)"

fun py_repr :: "toml \<Rightarrow> string" where
  "py_repr (TString s) = repr_str s"
| "py_repr (TInteger i) = show_int i"
| "py_repr (TFloat x) = x"
| "py_repr (TBool b) = (if b then ''True'' else ''False'')"
| "py_repr (TDatetime x) = x"
| "py_repr (TDate x) = x"
| "py_repr (TTime x) = x"
| "py_repr (TArray xs) = ''['' @ join '', '' (map py_repr xs) @ '']''"
| "py_repr (TTable kvs) =
     ''{'' @ join '', '' (map (\<lambda>kv. repr_str (fst kv) @ '': '' @ py_repr (snd kv)) kvs) @ ''}''"

text \<open>
  A framework in which everything starts, three modules can be imported
  (\<open>plain_module\<close> has no \<open>Adapter\<close>), every adapter class is accepted, and the document
  \<open>doc\<close> is what \<open>pyproject.toml\<close> holds. Importing \<open>exiting_module\<close> raises
  \<open>SystemExit(1)\<close>, as a module that calls \<open>sys.exit(1)\<close> does; importing any other
  name raises \<open>ModuleNotFoundError\<close>. Modules and adapter classes are named by strings.
\<close>

definition sample_env :: "(string \<times> toml) list \<Rightarrow> (string, string) env" where
  "sample_env doc =
     \<lparr>nonebot_init = None, get_driver = None, open_pyproject = None,
      tomllib_load = Inr doc,
      import_module = (\<lambda>v. case v of
         TString n \<Rightarrow>
           if n \<in> set [''nonebot.adapters.onebot.v11'', ''nonebot.adapters.console'', ''plain_module'']
           then Inr n
           else if n = ''exiting_module'' then Inl (Raised False ''1'')
           else Inl (Raised True (''No module named '' @ quoted n))
       | _ \<Rightarrow> Inl (Raised True (quoted (type_name v) @ '' object has no attribute '' @ quoted ''startswith''))),
      module_Adapter = (\<lambda>m.
         if m = ''plain_module''
         then Inl (Raised True (''module '' @ quoted m @ '' has no attribute '' @ quoted ''Adapter''))
         else Inr (m @ ''.Adapter'')),
      register_adapter = (\<lambda>a. None),
      str_other = py_repr,
      load_builtin_plugins = (\<lambda>ps. None),
      load_from_toml = None,
      is_main = True,
      nonebot_run = None\<rparr>"

text \<open>An adapter descriptor as the manifest schema has it, and one without its \<open>name\<close>.\<close>

definition descriptor :: "string \<Rightarrow> string \<Rightarrow> toml" where
  "descriptor n m = TTable [(''name'', TString n), (''module_name'', TString m)]"

definition nameless :: "string \<Rightarrow> toml" where
  "nameless m = TTable [(''module_name'', TString m)]"

text \<open>A manifest with the given adapter list, and one without the adapter table.\<close>

definition manifest :: "toml list \<Rightarrow> (string \<times> toml) list" where
  "manifest ds =
     [(''tool'', TTable [(''nonebot'', TTable
        [(''adapters'', TArray ds), (''builtin_plugins'', TArray [TString ''echo''])])])]"

definition sample_adapters :: "toml list" where
  "sample_adapters =
     [descriptor ''OneBot V11'' ''nonebot.adapters.onebot.v11'',
      descriptor ''Ghost'' ''nonebot.adapters.ghost'',
      descriptor ''Console'' ''nonebot.adapters.console'']"

definition mixed_adapters :: "toml list" where
  "mixed_adapters =
     [descriptor ''OneBot V11'' ''nonebot.adapters.onebot.v11'',
      nameless ''nonebot.adapters.ghost'',
      descriptor ''Console'' ''nonebot.adapters.console'']"

definition no_adapters_doc :: "(string \<times> toml) list" where
  "no_adapters_doc = [(''tool'', TTable [(''nonebot'', TTable [(''plugins'', TArray [])])])]"

text \<open>A manifest with one adapter and no list of built-in plugins.\<close>

definition no_builtins_doc :: "(string \<times> toml) list" where
  "no_builtins_doc =
     [(''tool'', TTable [(''nonebot'', TTable
        [(''adapters'', TArray [descriptor ''Console'' ''nonebot.adapters.console''])])])]"

section \<open>The example plugin: properties\<close>

text \<open>
  C3. With no text after the trigger phrase the handler replies \<open>Hello, World!\<close>; with
  the text \<open>Alice\<close> it replies \<open>Hello, Alice!\<close>. In both cases that is the only
  message it sends.
\<close>

theorem hello_handler_examples:
  "(ext args = [] \<longrightarrow> hello_handler ext args = [''Hello, World!'']) \<and>
   (ext args = ''Alice'' \<longrightarrow> hello_handler ext args = [''Hello, Alice!''])"
  by (simp add: hello_handler_def finish_def)

theorem hello_handler_examples_witness:
  "hello_handler (\<lambda>m. m) '''' = [''Hello, World!''] \<and>
   hello_handler (\<lambda>m. m) ''Alice'' = [''Hello, Alice!'']"
  using hello_handler_examples [of "\<lambda>m. m" "''''"] hello_handler_examples [of "\<lambda>m. m" "''Alice''"]
  by simp

text \<open>
  C9, as stated, fails: the reply \<open>Hello, World!\<close> does not force the extracted text to
  be empty, since the text \<open>World\<close> gives the same reply.
\<close>

theorem hello_reply_world_counterexample:
  "hello_handler (\<lambda>m. m) ''World'' = [''Hello, World!''] \<and> ''World'' \<noteq> ''''"
  by (simp add: hello_handler_def finish_def)

text \<open>
  C9, amended. When the extracted text is empty the reply is \<open>Hello, World!\<close>; for
  every non-empty text \<open>s\<close>, whitespace included, the reply is \<open>Hello, s!\<close>; and the
  reply is \<open>Hello, World!\<close> exactly when the text is empty or is \<open>World\<close>.
\<close>

theorem hello_handler_reply:
  "(ext args = [] \<longrightarrow> hello_handler ext args = [''Hello, World!'']) \<and>
   (ext args \<noteq> [] \<longrightarrow> hello_handler ext args = [''Hello, '' @ ext args @ ''!'']) \<and>
   (hello_handler ext args = [''Hello, World!''] \<longleftrightarrow> ext args = [] \<or> ext args = ''World'')"
proof -
  have "(''Hello, '' @ m @ ''!'' = ''Hello, World!'') = (m = ''World'')" for m :: string
  proof
    assume "''Hello, '' @ m @ ''!'' = ''Hello, World!''"
    then have "''Hello, '' @ (m @ ''!'') = ''Hello, '' @ (''World'' @ ''!'')" by simp
    then have "m @ ''!'' = ''World'' @ ''!''" by (simp only: same_append_eq)
    then show "m = ''World''" by (simp only: append_same_eq)
  next
    assume "m = ''World''"
    then show "''Hello, '' @ m @ ''!'' = ''Hello, World!''" by simp
  qed
  then show ?thesis
    by (auto simp add: hello_handler_def finish_def Let_def)
qed

theorem hello_handler_reply_witness:
  "hello_handler (\<lambda>m. m) '''' = [''Hello, World!''] \<and>
   hello_handler (\<lambda>m. m) ''  '' = [''Hello,   !''] \<and>
   hello_handler (\<lambda>m. m) ''World'' = [''Hello, World!'']"
  using hello_handler_reply [of "\<lambda>m. m" "''''"] hello_handler_reply [of "\<lambda>m. m" "''  ''"]
    hello_handler_reply [of "\<lambda>m. m" "''World''"]
  by simp

text \<open>
  C10. The reply is a function of the extracted text: two invocations with the same
  extracted text send the same messages; and every invocation calls \<open>finish\<close> exactly once.
\<close>

theorem hello_handler_deterministic:
  "(ext args1 = ext args2 \<longrightarrow> hello_handler ext args1 = hello_handler ext args2) \<and>
   length (hello_handler ext args1) = 1"
  by (simp add: hello_handler_def finish_def Let_def)

theorem hello_handler_deterministic_witness:
  "hello_handler fst (''Bob'', True) = hello_handler fst (''Bob'', False) \<and>
   length (hello_handler fst (''Bob'', True)) = 1"
proof -
  have same: "fst (''Bob'', True) = fst (''Bob'', False)" by simp
  from hello_handler_deterministic [of fst "(''Bob'', True)" "(''Bob'', False)"] same
  show ?thesis by blast
qed

text \<open>
  C5. The matcher \<open>hello\<close> is bound to \<open>hello\<close> and to its alias \<open>hi\<close>; invoked
  through either phrase on the same trailing message, it sends the same reply, the one
  the handler computes.
\<close>

theorem alias_same_reply:
  "invoke hello ext ''hi'' args = invoke hello ext ''hello'' args \<and>
   invoke hello ext ''hello'' args = Some (hello_handler ext args)"
  by (simp add: invoke_def commands_def hello_def)

section \<open>The registration loop and the entry points: auxiliary facts\<close>

lemma try_body_calls: "c \<in> set (fst (try_body env d)) \<Longrightarrow> is_loop_call c"
  by (auto simp add: try_body_def split: sum.splits option.splits)

lemma is_loop_call_not_read: "is_loop_call c \<Longrightarrow> \<not> is_tomllib_load c \<and> \<not> is_after_loop_call c"
  by (cases c) simp_all

lemma register_loop_trace:
  "\<exists>cs. calls (state_of (register_loop env s ds)) = calls s @ cs \<and> (\<forall>c\<in>set cs. is_loop_call c)"
proof (induction ds arbitrary: s)
  case Nil
  show ?case by simp
next
  case (Cons d ds)
  obtain cs r where tb: "try_body env d = (cs, r)" by (cases "try_body env d")
  have cs: "\<forall>c\<in>set cs. is_loop_call c"
    using try_body_calls [of _ env d] tb by simp
  show ?case
  proof (cases r)
    case (Inr cls)
    from Cons.IH [of "s\<lparr>calls := calls s @ cs, registered := registered s @ [cls]\<rparr>"]
    obtain cs' where "calls (state_of (register_loop env (s\<lparr>calls := calls s @ cs, registered := registered s @ [cls]\<rparr>) ds)) = (calls s @ cs) @ cs'"
      and "\<forall>c\<in>set cs'. is_loop_call c" by auto
    with cs tb Inr show ?thesis by (intro exI [of _ "cs @ cs'"]) auto
  next
    case (Inl e)
    show ?thesis
    proof (cases "is_Exception e")
      case False
      with tb Inl cs show ?thesis by (intro exI [of _ cs]) simp
    next
      case True
      show ?thesis
      proof (cases "subscript d ''name''")
        case (Inl e2)
        with tb \<open>r = Inl e\<close> True cs show ?thesis by (intro exI [of _ cs]) simp
      next
        case (Inr n)
        let ?m = "failure_message env n e"
        from Cons.IH [of "log_error ?m (s\<lparr>calls := calls s @ cs\<rparr>)"]
        obtain cs' where "calls (state_of (register_loop env (log_error ?m (s\<lparr>calls := calls s @ cs\<rparr>)) ds)) = (calls s @ cs @ [CallLogError ?m]) @ cs'"
          and "\<forall>c\<in>set cs'. is_loop_call c" by (auto simp add: log_error_def)
        with cs tb \<open>r = Inl e\<close> True Inr show ?thesis
          by (intro exI [of _ "cs @ [CallLogError ?m] @ cs'"]) auto
      qed
    qed
  qed
qed

lemma register_loop_pyproject:
  "pyproject (state_of (register_loop env s ds)) = pyproject s"
  by (induction ds arbitrary: s)
    (auto simp add: log_error_def Let_def split: prod.splits sum.splits)

lemma register_loop_logged:
  "\<exists>ms. logged (state_of (register_loop env s ds)) = logged s @ ms"
proof (induction ds arbitrary: s)
  case Nil
  show ?case by simp
next
  case (Cons d ds)
  obtain cs r where tb: "try_body env d = (cs, r)" by (cases "try_body env d")
  show ?case
  proof (cases r)
    case (Inr cls)
    from Cons.IH [of "s\<lparr>calls := calls s @ cs, registered := registered s @ [cls]\<rparr>"] tb Inr
    show ?thesis by simp
  next
    case (Inl e)
    show ?thesis
    proof (cases "subscript d ''name''")
      case (Inl e2)
      with tb \<open>r = Inl e\<close> show ?thesis by (simp add: Let_def)
    next
      case (Inr n)
      let ?m = "failure_message env n e"
      from Cons.IH [of "log_error ?m (s\<lparr>calls := calls s @ cs\<rparr>)"]
      obtain ms where "logged (state_of (register_loop env (log_error ?m (s\<lparr>calls := calls s @ cs\<rparr>)) ds)) = (logged s @ [?m]) @ ms"
        by (auto simp add: log_error_def)
      with tb \<open>r = Inl e\<close> Inr show ?thesis by (simp add: Let_def)
    qed
  qed
qed

lemma register_loop_tolerated:
  "\<forall>d\<in>set ds. tolerated env d \<Longrightarrow>
   \<exists>s'. register_loop env s ds = Finished s' \<and>
     length (registered s') = length (registered s) + length (filter (resolves env) ds) \<and>
     length (logged s') = length (logged s) + length (filter (\<lambda>d. \<not> resolves env d) ds)"
proof (induction ds arbitrary: s)
  case Nil
  show ?case by simp
next
  case (Cons d ds)
  obtain cs r where tb: "try_body env d = (cs, r)" by (cases "try_body env d")
  from Cons.prems have tol: "tolerated env d" and rest: "\<forall>d\<in>set ds. tolerated env d" by simp_all
  show ?case
  proof (cases r)
    case (Inr cls)
    with tb have res: "resolves env d" by (simp add: resolves_def)
    from Cons.IH [OF rest, of "s\<lparr>calls := calls s @ cs, registered := registered s @ [cls]\<rparr>"]
    show ?thesis using tb Inr res by auto
  next
    case (Inl e)
    with tb have res: "\<not> resolves env d" by (simp add: resolves_def)
    from tol tb Inl have ex: "is_Exception e" and hn: "has_name d" by (simp_all add: tolerated_def)
    from hn obtain n where n: "subscript d ''name'' = Inr n"
      by (auto simp add: has_name_def split: sum.splits)
    from Cons.IH [OF rest, of "log_error (failure_message env n e) (s\<lparr>calls := calls s @ cs\<rparr>)"]
    show ?thesis using tb Inl res ex n by (auto simp add: log_error_def)
  qed
qed

lemma register_loop_append:
  "register_loop env s (xs @ ys) =
     (case register_loop env s xs of
        Finished s' \<Rightarrow> register_loop env s' ys
      | Uncaught e s' \<Rightarrow> Uncaught e s')"
  by (induction xs arbitrary: s) (auto simp add: Let_def split: prod.splits sum.splits)

lemma startup_ok:
  "nonebot_init env = None \<Longrightarrow> get_driver env = None \<Longrightarrow> open_pyproject env = None \<Longrightarrow>
   startup env k = k opened"
  by (simp add: startup_def call_def opened_def init_state_def)

lemma startup_cases:
  "startup env k = k opened \<or>
   (\<exists>e s. startup env k = Uncaught e s \<and> registered s = [] \<and> logged s = [] \<and>
      pyproject s = None \<and> set (calls s) \<subseteq> {CallInit, CallGetDriver, CallOpen})"
proof (cases "nonebot_init env")
  case (Some e)
  then show ?thesis by (simp add: startup_def call_def init_state_def)
next
  case init: None
  show ?thesis
  proof (cases "get_driver env")
    case (Some e)
    with init show ?thesis by (simp add: startup_def call_def init_state_def)
  next
    case drv: None
    show ?thesis
    proof (cases "open_pyproject env")
      case (Some e)
      with init drv show ?thesis by (simp add: startup_def call_def init_state_def)
    next
      case None
      with init drv show ?thesis by (simp add: startup_ok)
    qed
  qed
qed

lemma nbfile_with_loop:
  "tomllib_load env = Inr doc \<Longrightarrow> adapters_of doc = Inr a \<Longrightarrow> iterate a = Inr ds \<Longrightarrow>
   nbfile_with env opened = register_loop env (loaded doc) ds"
  by (auto simp add: nbfile_with_def adapters_of_def tool_nonebot_of_def loaded_def opened_def
      init_state_def Let_def split: sum.splits)

lemma nbfile_with_missing:
  "tomllib_load env = Inr doc \<Longrightarrow> adapters_of doc = Inl e \<Longrightarrow>
   nbfile_with env opened = Uncaught e (loaded doc)"
  by (auto simp add: nbfile_with_def adapters_of_def tool_nonebot_of_def loaded_def opened_def
      init_state_def Let_def split: sum.splits)

lemma templates_with_loop:
  "tomllib_load env = Inr doc \<Longrightarrow> tool_nonebot_of doc = Inr nb \<Longrightarrow>
   subscript nb ''adapters'' = Inr a \<Longrightarrow> iterate a = Inr ds \<Longrightarrow>
   templates_with env opened =
     (case register_loop env (loaded doc) ds of
        Uncaught e s3 \<Rightarrow> Uncaught e s3
      | Finished s3 \<Rightarrow> templates_after_loop env nb s3)"
  by (auto simp add: templates_with_def tool_nonebot_of_def loaded_def opened_def
      init_state_def Let_def split: sum.splits)

lemma templates_with_missing:
  "tomllib_load env = Inr doc \<Longrightarrow> adapters_of doc = Inl e \<Longrightarrow>
   templates_with env opened = Uncaught e (loaded doc)"
  by (auto simp add: templates_with_def adapters_of_def tool_nonebot_of_def loaded_def opened_def
      init_state_def Let_def split: sum.splits)

lemma adapters_of_nb:
  "adapters_of doc = Inr a \<Longrightarrow> \<exists>nb. tool_nonebot_of doc = Inr nb \<and> subscript nb ''adapters'' = Inr a"
  by (auto simp add: adapters_of_def split: sum.splits)

lemma load_and_run_frame:
  "registered (state_of (load_and_run env app s)) = registered s \<and>
   logged (state_of (load_and_run env app s)) = logged s \<and>
   pyproject (state_of (load_and_run env app s)) = pyproject s \<and>
   (\<exists>cs. calls (state_of (load_and_run env app s)) = calls s @ CallLoadFromToml # cs \<and>
      (\<forall>c\<in>set cs. is_after_loop_call c))"
  by (auto simp add: load_and_run_def call_def Let_def split: option.splits)

lemma load_and_run_finished:
  "load_from_toml env = None \<Longrightarrow> (is_main env \<longrightarrow> nonebot_run env = None) \<Longrightarrow>
   is_Finished (load_and_run env app s)"
  by (auto simp add: load_and_run_def call_def Let_def split: option.splits)

lemma templates_after_loop_frame:
  "registered (state_of (templates_after_loop env nb s)) = registered s \<and>
   logged (state_of (templates_after_loop env nb s)) = logged s \<and>
   pyproject (state_of (templates_after_loop env nb s)) = pyproject s \<and>
   (\<exists>cs. calls (state_of (templates_after_loop env nb s)) = calls s @ cs \<and>
      (\<forall>c\<in>set cs. is_after_loop_call c))"
  by (auto simp add: templates_after_loop_def call_def Let_def split: option.splits sum.splits)

lemma templates_after_loop_finished:
  "subscript nb ''builtin_plugins'' = Inr bp \<Longrightarrow> star_args bp = Inr ps \<Longrightarrow>
   load_builtin_plugins env ps = None \<Longrightarrow>
   templates_after_loop env nb s = Finished (s\<lparr>calls := calls s @ [CallLoadBuiltin ps]\<rparr>)"
  by (simp add: templates_after_loop_def call_def)

lemma is_after_loop_call_not_read: "is_after_loop_call c \<Longrightarrow> \<not> is_tomllib_load c \<and> \<not> is_register_call c"
  by (cases c) simp_all

lemmas sample_defs =
  sample_env_def descriptor_def manifest_def sample_adapters_def try_body_def
  resolves_def tolerated_def has_name_def adapters_of_def tool_nonebot_of_def
  builtin_plugins_of_def star_args_def iterate_def quoted_def

lemma calls_loaded: "calls (loaded doc) = [CallInit, CallGetDriver, CallOpen, CallTomlLoad]"
  by (simp add: loaded_def)

lemma nbfile_with_shape:
  "nbfile_with env opened =
     (case tomllib_load env of
        Inl e \<Rightarrow> Uncaught e (opened\<lparr>calls := [CallInit, CallGetDriver, CallOpen, CallTomlLoad]\<rparr>)
      | Inr doc \<Rightarrow>
          (case adapters_of doc of
             Inl e \<Rightarrow> Uncaught e (loaded doc)
           | Inr a \<Rightarrow>
               (case iterate a of
                  Inl e \<Rightarrow> Uncaught e (loaded doc)
                | Inr ds \<Rightarrow> register_loop env (loaded doc) ds)))"
  by (auto simp add: nbfile_with_def adapters_of_def tool_nonebot_of_def loaded_def opened_def
      init_state_def Let_def split: sum.splits)

lemma templates_with_shape:
  "templates_with env opened =
     (case tomllib_load env of
        Inl e \<Rightarrow> Uncaught e (opened\<lparr>calls := [CallInit, CallGetDriver, CallOpen, CallTomlLoad]\<rparr>)
      | Inr doc \<Rightarrow>
          (case tool_nonebot_of doc of
             Inl e \<Rightarrow> Uncaught e (loaded doc)
           | Inr nb \<Rightarrow>
               (case subscript nb ''adapters'' of
                  Inl e \<Rightarrow> Uncaught e (loaded doc)
                | Inr a \<Rightarrow>
                    (case iterate a of
                       Inl e \<Rightarrow> Uncaught e (loaded doc)
                     | Inr ds \<Rightarrow>
                         (case register_loop env (loaded doc) ds of
                            Uncaught e s3 \<Rightarrow> Uncaught e s3
                          | Finished s3 \<Rightarrow> templates_after_loop env nb s3)))))"
  by (auto simp add: templates_with_def tool_nonebot_of_def loaded_def opened_def
      init_state_def Let_def split: sum.splits)

lemma nbfile_with_trace:
  "\<exists>cs. calls (state_of (nbfile_with env opened)) = [CallInit, CallGetDriver, CallOpen, CallTomlLoad] @ cs \<and>
     (\<forall>c\<in>set cs. is_loop_call c)"
proof (cases "tomllib_load env")
  case (Inl e)
  then show ?thesis by (simp add: nbfile_with_shape)
next
  case load: (Inr doc)
  show ?thesis
  proof (cases "adapters_of doc")
    case (Inl e)
    with load show ?thesis by (simp add: nbfile_with_shape calls_loaded)
  next
    case ads: (Inr a)
    show ?thesis
    proof (cases "iterate a")
      case (Inl e)
      with load ads show ?thesis by (simp add: nbfile_with_shape calls_loaded)
    next
      case (Inr ds)
      with load ads register_loop_trace [of env "loaded doc" ds] show ?thesis
        by (simp add: nbfile_with_shape calls_loaded)
    qed
  qed
qed

lemma nbfile_with_pyproject:
  "tomllib_load env = Inr doc \<Longrightarrow> pyproject (state_of (nbfile_with env opened)) = Some (TTable doc)"
  by (auto simp add: nbfile_with_shape register_loop_pyproject loaded_def split: sum.splits)

lemma after_loop_trace:
  "\<exists>cs. calls (state_of
        (case register_loop env (loaded doc) ds of
           Uncaught e s3 \<Rightarrow> Uncaught e s3
         | Finished s3 \<Rightarrow> templates_after_loop env nb s3)) =
        [CallInit, CallGetDriver, CallOpen, CallTomlLoad] @ cs \<and>
      (\<forall>c\<in>set cs. is_loop_call c \<or> is_after_loop_call c)"
proof -
  from register_loop_trace [of env "loaded doc" ds]
  obtain cs where cs: "calls (state_of (register_loop env (loaded doc) ds)) =
      [CallInit, CallGetDriver, CallOpen, CallTomlLoad] @ cs"
    and lc: "\<forall>c\<in>set cs. is_loop_call c" by (auto simp add: calls_loaded)
  show ?thesis
  proof (cases "register_loop env (loaded doc) ds")
    case (Uncaught e s3)
    with cs lc show ?thesis by auto
  next
    case (Finished s3)
    from templates_after_loop_frame [of env nb s3]
    obtain cs' where "calls (state_of (templates_after_loop env nb s3)) = calls s3 @ cs'"
      and "\<forall>c\<in>set cs'. is_after_loop_call c" by blast
    with Finished cs lc show ?thesis
      by (intro exI [of _ "cs @ cs'"]) auto
  qed
qed

lemma templates_with_trace:
  "\<exists>cs. calls (state_of (templates_with env opened)) = [CallInit, CallGetDriver, CallOpen, CallTomlLoad] @ cs \<and>
     (\<forall>c\<in>set cs. is_loop_call c \<or> is_after_loop_call c)"
proof (cases "tomllib_load env")
  case (Inl e)
  then show ?thesis by (simp add: templates_with_shape)
next
  case load: (Inr doc)
  show ?thesis
  proof (cases "tool_nonebot_of doc")
    case (Inl e)
    with load show ?thesis by (simp add: templates_with_shape calls_loaded)
  next
    case tn: (Inr nb)
    show ?thesis
    proof (cases "subscript nb ''adapters''")
      case (Inl e)
      with load tn show ?thesis by (simp add: templates_with_shape calls_loaded)
    next
      case ads: (Inr a)
      show ?thesis
      proof (cases "iterate a")
        case (Inl e)
        with load tn ads show ?thesis by (simp add: templates_with_shape calls_loaded)
      next
        case (Inr ds)
        with load tn ads after_loop_trace [where env = env and doc = doc and ds = ds and nb = nb] show ?thesis
          by (simp add: templates_with_shape)
      qed
    qed
  qed
qed

lemma templates_with_pyproject:
  "tomllib_load env = Inr doc \<Longrightarrow> pyproject (state_of (templates_with env opened)) = Some (TTable doc)"
proof -
  assume load: "tomllib_load env = Inr doc"
  have "pyproject (state_of
        (case register_loop env (loaded doc) ds of
           Uncaught e s3 \<Rightarrow> Uncaught e s3
         | Finished s3 \<Rightarrow> templates_after_loop env nb s3)) = Some (TTable doc)" for ds nb
  proof (cases "register_loop env (loaded doc) ds")
    case (Uncaught e s3)
    with register_loop_pyproject [of env "loaded doc" ds] show ?thesis by (simp add: loaded_def)
  next
    case (Finished s3)
    with register_loop_pyproject [of env "loaded doc" ds] templates_after_loop_frame [of env nb s3]
    show ?thesis by (simp add: loaded_def)
  qed
  then show ?thesis
    using load by (auto simp add: templates_with_shape loaded_def split: sum.splits)
qed

lemma nbfile_bot_ok:
  assumes "nonebot_init env = None" "get_driver env = None" "open_pyproject env = None"
  shows "nbfile_bot env =
     (case nbfile_with env opened of
        Uncaught e s' \<Rightarrow> Uncaught e s'
      | Finished s' \<Rightarrow> load_and_run env (Some ''__mp_main__:app'') s')"
  by (simp add: nbfile_bot_def startup_ok [OF assms])

lemma templates_bot_ok:
  assumes "nonebot_init env = None" "get_driver env = None" "open_pyproject env = None"
  shows "templates_bot env =
     (case templates_with env opened of
        Uncaught e s' \<Rightarrow> Uncaught e s'
      | Finished s' \<Rightarrow> load_and_run env None s')"
  by (simp add: templates_bot_def startup_ok [OF assms])

lemma then_load_and_run:
  assumes "\<exists>cs. calls (state_of r) = pre @ cs \<and> (\<forall>c\<in>set cs. is_loop_call c \<or> is_after_loop_call c)"
  shows "\<exists>cs. calls (state_of (case r of Uncaught e s' \<Rightarrow> Uncaught e s'
                                | Finished s' \<Rightarrow> load_and_run env app s')) = pre @ cs \<and>
            (\<forall>c\<in>set cs. is_loop_call c \<or> is_after_loop_call c)"
proof (cases r)
  case (Uncaught e s')
  with assms show ?thesis by simp
next
  case (Finished s')
  with assms obtain cs where cs: "calls s' = pre @ cs"
    and ok: "\<forall>c\<in>set cs. is_loop_call c \<or> is_after_loop_call c" by auto
  from load_and_run_frame [of env app s']
  obtain cs' where "calls (state_of (load_and_run env app s')) = calls s' @ CallLoadFromToml # cs'"
    and "\<forall>c\<in>set cs'. is_after_loop_call c" by blast
  with Finished cs ok show ?thesis
    by (intro exI [of _ "cs @ CallLoadFromToml # cs'"]) auto
qed

lemma then_load_and_run_pyproject:
  "pyproject (state_of (case r of Uncaught e s' \<Rightarrow> Uncaught e s'
                          | Finished s' \<Rightarrow> load_and_run env app s')) = pyproject (state_of r)"
  using load_and_run_frame [of env app] by (cases r) simp_all

lemma nbfile_with_trace_weak:
  "\<exists>cs. calls (state_of (nbfile_with env opened)) = [CallInit, CallGetDriver, CallOpen, CallTomlLoad] @ cs \<and>
     (\<forall>c\<in>set cs. is_loop_call c \<or> is_after_loop_call c)"
  using nbfile_with_trace [of env] by blast

lemma nbfile_bot_trace:
  assumes "nonebot_init env = None" "get_driver env = None" "open_pyproject env = None"
  shows "\<exists>cs. calls (state_of (nbfile_bot env)) = [CallInit, CallGetDriver, CallOpen, CallTomlLoad] @ cs \<and>
     (\<forall>c\<in>set cs. is_loop_call c \<or> is_after_loop_call c)"
  using then_load_and_run [OF nbfile_with_trace_weak [of env]]
  by (simp only: nbfile_bot_ok [OF assms])

lemma templates_bot_trace:
  assumes "nonebot_init env = None" "get_driver env = None" "open_pyproject env = None"
  shows "\<exists>cs. calls (state_of (templates_bot env)) = [CallInit, CallGetDriver, CallOpen, CallTomlLoad] @ cs \<and>
     (\<forall>c\<in>set cs. is_loop_call c \<or> is_after_loop_call c)"
  using then_load_and_run [OF templates_with_trace [of env]]
  by (simp only: templates_bot_ok [OF assms])

lemma filter_is_tomllib_load:
  "\<forall>c\<in>set cs. is_loop_call c \<or> is_after_loop_call c \<Longrightarrow> filter is_tomllib_load cs = []"
  using is_loop_call_not_read is_after_loop_call_not_read by (auto simp add: filter_empty_conv)

lemma reads_of_trace:
  assumes "\<exists>cs. calls s = [CallInit, CallGetDriver, CallOpen, CallTomlLoad] @ cs \<and>
     (\<forall>c\<in>set cs. is_loop_call c \<or> is_after_loop_call c)"
  shows "length (filter is_tomllib_load (calls s)) = 1 \<and>
         take 4 (calls s) = [CallInit, CallGetDriver, CallOpen, CallTomlLoad]"
proof -
  from assms obtain cs where cs: "calls s = [CallInit, CallGetDriver, CallOpen, CallTomlLoad] @ cs"
    and ok: "\<forall>c\<in>set cs. is_loop_call c \<or> is_after_loop_call c" by blast
  from filter_is_tomllib_load [OF ok] cs show ?thesis by simp
qed

lemma reads_of_failed_startup:
  "set (calls s) \<subseteq> {CallInit, CallGetDriver, CallOpen} \<Longrightarrow> filter is_tomllib_load (calls s) = []"
  by (auto simp add: filter_empty_conv)

lemma startup_reads_le:
  assumes "\<exists>cs. calls (state_of (k opened)) = [CallInit, CallGetDriver, CallOpen, CallTomlLoad] @ cs \<and>
     (\<forall>c\<in>set cs. is_loop_call c \<or> is_after_loop_call c)"
  shows "length (filter is_tomllib_load (calls (state_of (startup env k)))) \<le> 1"
proof -
  from startup_cases [of env k] show ?thesis
  proof (elim disjE exE conjE)
    assume "startup env k = k opened"
    with reads_of_trace [OF assms] show ?thesis by simp
  next
    fix e s
    assume "startup env k = Uncaught e s" and "set (calls s) \<subseteq> {CallInit, CallGetDriver, CallOpen}"
    with reads_of_failed_startup [of s] show ?thesis by simp
  qed
qed

lemma startup_then_uncaught:
  assumes "k opened = Uncaught e (loaded doc)"
  shows "\<not> is_Finished (startup env k) \<and>
         (\<forall>c\<in>set (calls (state_of (startup env k))). \<not> is_loop_call c) \<and>
         registered (state_of (startup env k)) = []"
proof -
  from startup_cases [of env k] show ?thesis
  proof (elim disjE exE conjE)
    assume "startup env k = k opened"
    with assms show ?thesis by (auto simp add: loaded_def opened_def init_state_def)
  next
    fix e' s
    assume "startup env k = Uncaught e' s" and "registered s = []"
      and "set (calls s) \<subseteq> {CallInit, CallGetDriver, CallOpen}"
    then show ?thesis by auto
  qed
qed

lemma is_loop_call_no_read: "is_loop_call c \<Longrightarrow> \<not> is_read c"
  by (cases c) simp_all

lemma register_loop_reads:
  "filter is_read (calls (state_of (register_loop env s ds))) = filter is_read (calls s)"
proof -
  from register_loop_trace [of env s ds]
  obtain cs where cs: "calls (state_of (register_loop env s ds)) = calls s @ cs"
    and lc: "\<forall>c\<in>set cs. is_loop_call c" by blast
  from lc have "filter is_read cs = []"
    using is_loop_call_no_read by (auto simp add: filter_empty_conv)
  with cs show ?thesis by simp
qed

lemma templates_after_loop_reads:
  "filter is_read (calls (state_of (templates_after_loop env nb s))) = filter is_read (calls s)"
  by (auto simp add: templates_after_loop_def call_def Let_def split: option.splits sum.splits)

lemma load_and_run_reads:
  "filter is_read (calls (state_of (load_and_run env app s))) =
     filter is_read (calls s) @ [CallLoadFromToml]"
  by (auto simp add: load_and_run_def call_def Let_def split: option.splits)

lemma reads_loaded: "filter is_read (calls (loaded doc)) = [CallTomlLoad]"
  by (simp add: calls_loaded)

lemma nbfile_with_reads:
  "filter is_read (calls (state_of (nbfile_with env opened))) = [CallTomlLoad]"
  by (auto simp add: nbfile_with_shape register_loop_reads reads_loaded split: sum.splits)

lemma templates_with_reads:
  "filter is_read (calls (state_of (templates_with env opened))) = [CallTomlLoad]"
proof -
  have "filter is_read (calls (state_of
        (case register_loop env (loaded doc) ds of
           Uncaught e s3 \<Rightarrow> Uncaught e s3
         | Finished s3 \<Rightarrow> templates_after_loop env nb s3))) = [CallTomlLoad]" for doc ds nb
  proof (cases "register_loop env (loaded doc) ds")
    case (Uncaught e s3)
    with register_loop_reads [of env "loaded doc" ds] show ?thesis by (simp add: reads_loaded)
  next
    case (Finished s3)
    with register_loop_reads [of env "loaded doc" ds] templates_after_loop_reads [of env nb s3]
    show ?thesis by (simp add: reads_loaded)
  qed
  then show ?thesis
    by (auto simp add: templates_with_shape reads_loaded split: sum.splits)
qed

lemma then_load_and_run_reads:
  assumes "filter is_read (calls (state_of r)) = [CallTomlLoad]"
  shows "filter is_read (calls (state_of (case r of Uncaught e s' \<Rightarrow> Uncaught e s'
                                            | Finished s' \<Rightarrow> load_and_run env app s'))) =
           (if is_Finished r then [CallTomlLoad, CallLoadFromToml] else [CallTomlLoad])"
  using assms load_and_run_reads [of env app] by (cases r) simp_all

lemma startup_reads:
  assumes "filter is_read (calls (state_of (k opened))) = rs"
  shows "filter is_read (calls (state_of (startup env k))) = rs \<or>
         filter is_read (calls (state_of (startup env k))) = []"
proof -
  from startup_cases [of env k] show ?thesis
  proof (elim disjE exE conjE)
    assume "startup env k = k opened"
    with assms show ?thesis by simp
  next
    fix e s
    assume "startup env k = Uncaught e s" and "set (calls s) \<subseteq> {CallInit, CallGetDriver, CallOpen}"
    then have "filter is_read (calls (state_of (startup env k))) = []"
      by (auto simp add: filter_empty_conv)
    then show ?thesis by simp
  qed
qed

section \<open>The registration loop and the entry points: properties\<close>

text \<open>
  C1, as stated, fails, in three ways.
  First manifest: one descriptor (N = 1), which does not resolve (M = 0) since its module
  cannot be imported, and which has no \<open>name\<close>. The handler's \<open>adapter['name']\<close>
  raises \<open>KeyError\<close>: no failure is logged (not N - M = 1), and \<open>nbfile/bot.py\<close> stops
  there, before \<open>nonebot.load_from_toml\<close>.
  Second manifest: one descriptor (N = 1, M = 0) with a name, whose import raises
  \<open>SystemExit\<close>. \<open>except Exception\<close> does not catch it: nothing is logged and the
  script stops.
  Third manifest: one descriptor, which resolves (N = M = 1), and no \<open>builtin_plugins\<close>.
  \<open>templates/bot.py\<close> registers the adapter and then stops at
  \<open>tool_nonebot["builtin_plugins"]\<close>, before \<open>nonebot.load_from_toml\<close>.
\<close>

theorem registration_counts_counterexample:
  "adapters_of (manifest [nameless ''nonebot.adapters.ghost'']) =
     Inr (TArray [nameless ''nonebot.adapters.ghost'']) \<and>
   length (filter (resolves (sample_env (manifest [nameless ''nonebot.adapters.ghost''])))
     [nameless ''nonebot.adapters.ghost'']) = 0 \<and>
   nbfile_bot (sample_env (manifest [nameless ''nonebot.adapters.ghost''])) =
     Uncaught (KeyError ''name'')
       \<lparr>calls = [CallInit, CallGetDriver, CallOpen, CallTomlLoad,
                 CallImport (TString ''nonebot.adapters.ghost'')],
        registered = [], logged = [],
        pyproject = Some (TTable (manifest [nameless ''nonebot.adapters.ghost'']))\<rparr> \<and>
   nbfile_bot (sample_env (manifest [descriptor ''Exit'' ''exiting_module''])) =
     Uncaught (Raised False ''1'')
       \<lparr>calls = [CallInit, CallGetDriver, CallOpen, CallTomlLoad,
                 CallImport (TString ''exiting_module'')],
        registered = [], logged = [],
        pyproject = Some (TTable (manifest [descriptor ''Exit'' ''exiting_module'']))\<rparr> \<and>
   templates_bot (sample_env no_builtins_doc) =
     Uncaught (KeyError ''builtin_plugins'')
       \<lparr>calls = [CallInit, CallGetDriver, CallOpen, CallTomlLoad,
                 CallImport (TString ''nonebot.adapters.console''),
                 CallRegister ''nonebot.adapters.console.Adapter''],
        registered = [''nonebot.adapters.console.Adapter''], logged = [],
        pyproject = Some (TTable no_builtins_doc)\<rparr>"
  by (simp add: sample_defs nameless_def no_builtins_doc_def nbfile_bot_def templates_bot_def
      startup_def call_def nbfile_with_def templates_with_def templates_after_loop_def
      init_state_def Let_def)

text \<open>
  C1, amended. Let the framework start, the manifest load, and its adapter list have N
  descriptors of which M resolve, where every descriptor that does not resolve fails with
  an exception derived from \<open>Exception\<close> and has a \<open>name\<close>. Then in both scripts the
  loop registers exactly M adapters and logs exactly N - M failures, whatever M is.
  \<open>nbfile/bot.py\<close> goes on to call \<open>nonebot.load_from_toml\<close>, and runs to its end when
  that call and \<open>nonebot.run\<close> return. \<open>templates/bot.py\<close> goes on to call
  \<open>nonebot.load_from_toml\<close> when the manifest has an iterable \<open>builtin_plugins\<close> and
  \<open>nonebot.load_builtin_plugins\<close> returns.
\<close>

theorem registration_counts:
  assumes init: "nonebot_init env = None" and drv: "get_driver env = None"
    and opn: "open_pyproject env = None"
    and load: "tomllib_load env = Inr doc"
    and ads: "adapters_of doc = Inr (TArray ds)"
    and tol: "\<forall>d\<in>set ds. tolerated env d"
  shows "length (registered (state_of (nbfile_bot env))) = length (filter (resolves env) ds) \<and>
         length (logged (state_of (nbfile_bot env))) = length ds - length (filter (resolves env) ds) \<and>
         CallLoadFromToml \<in> set (calls (state_of (nbfile_bot env))) \<and>
         (load_from_toml env = None \<and> (is_main env \<longrightarrow> nonebot_run env = None) \<longrightarrow>
            is_Finished (nbfile_bot env)) \<and>
         length (registered (state_of (templates_bot env))) = length (filter (resolves env) ds) \<and>
         length (logged (state_of (templates_bot env))) = length ds - length (filter (resolves env) ds) \<and>
         (\<forall>ps. builtin_plugins_of doc = Inr ps \<and> load_builtin_plugins env ps = None \<longrightarrow>
            CallLoadFromToml \<in> set (calls (state_of (templates_bot env))))"
proof -
  have it: "iterate (TArray ds) = Inr ds" by (simp add: iterate_def)
  from register_loop_tolerated [OF tol, of "loaded doc"]
  obtain s' where loop: "register_loop env (loaded doc) ds = Finished s'"
    and reg: "length (registered s') = length (filter (resolves env) ds)"
    and log: "length (logged s') = length (filter (\<lambda>d. \<not> resolves env d) ds)"
    by (auto simp add: loaded_def opened_def init_state_def)
  have compl: "length (filter (\<lambda>d. \<not> resolves env d) ds) = length ds - length (filter (resolves env) ds)"
    using sum_length_filter_compl [of "resolves env" ds] by simp
  have nb: "nbfile_bot env = load_and_run env (Some ''__mp_main__:app'') s'"
    by (simp add: nbfile_bot_def startup_ok [OF init drv opn] nbfile_with_loop [OF load ads it] loop)
  from adapters_of_nb [OF ads] obtain tn where tn: "tool_nonebot_of doc = Inr tn"
    and sub: "subscript tn ''adapters'' = Inr (TArray ds)" by blast
  have tw: "templates_with env opened = templates_after_loop env tn s'"
    by (simp add: templates_with_loop [OF load tn sub it] loop)
  have tb: "templates_bot env =
      (case templates_after_loop env tn s' of
         Uncaught e s'' \<Rightarrow> Uncaught e s''
       | Finished s'' \<Rightarrow> load_and_run env None s'')"
    by (simp add: templates_bot_def startup_ok [OF init drv opn] tw)
  have n1: "length (registered (state_of (nbfile_bot env))) = length (filter (resolves env) ds)"
    using load_and_run_frame [of env "Some ''__mp_main__:app''" s'] nb reg by simp
  have n2: "length (logged (state_of (nbfile_bot env))) = length ds - length (filter (resolves env) ds)"
    using load_and_run_frame [of env "Some ''__mp_main__:app''" s'] nb log compl by simp
  have n3: "CallLoadFromToml \<in> set (calls (state_of (nbfile_bot env)))"
    using load_and_run_frame [of env "Some ''__mp_main__:app''" s'] nb by auto
  have n4: "is_Finished (nbfile_bot env)"
    if "load_from_toml env = None" and "is_main env \<longrightarrow> nonebot_run env = None"
    using load_and_run_finished [OF that] nb by simp
  have t12: "length (registered (state_of (templates_bot env))) = length (filter (resolves env) ds) \<and>
     length (logged (state_of (templates_bot env))) = length ds - length (filter (resolves env) ds)"
  proof (cases "templates_after_loop env tn s'")
    case (Uncaught e s'')
    with templates_after_loop_frame [of env tn s'] tb reg log compl show ?thesis by simp
  next
    case (Finished s'')
    with templates_after_loop_frame [of env tn s'] load_and_run_frame [of env None s''] tb reg log compl
    show ?thesis by simp
  qed
  have t3: "CallLoadFromToml \<in> set (calls (state_of (templates_bot env)))"
    if bp: "builtin_plugins_of doc = Inr ps" and lb: "load_builtin_plugins env ps = None" for ps
  proof -
    from bp tn obtain b where b: "subscript tn ''builtin_plugins'' = Inr b" and st: "star_args b = Inr ps"
      by (auto simp add: builtin_plugins_of_def split: sum.splits)
    from templates_after_loop_finished [OF b st lb, of s'] tb
    have "templates_bot env = load_and_run env None (s'\<lparr>calls := calls s' @ [CallLoadBuiltin ps]\<rparr>)"
      by simp
    with load_and_run_frame [of env None "s'\<lparr>calls := calls s' @ [CallLoadBuiltin ps]\<rparr>"]
    show ?thesis by auto
  qed
  from n1 n2 n3 n4 t12 t3 show ?thesis by blast
qed

theorem registration_counts_witness:
  "length (registered (state_of (nbfile_bot (sample_env (manifest sample_adapters))))) = 2 \<and>
   length (logged (state_of (nbfile_bot (sample_env (manifest sample_adapters))))) = 1 \<and>
   CallLoadFromToml \<in> set (calls (state_of (nbfile_bot (sample_env (manifest sample_adapters))))) \<and>
   is_Finished (nbfile_bot (sample_env (manifest sample_adapters))) \<and>
   length (registered (state_of (templates_bot (sample_env (manifest sample_adapters))))) = 2 \<and>
   length (logged (state_of (templates_bot (sample_env (manifest sample_adapters))))) = 1 \<and>
   CallLoadFromToml \<in> set (calls (state_of (templates_bot (sample_env (manifest sample_adapters)))))"
proof -
  let ?env = "sample_env (manifest sample_adapters)"
  have h1: "nonebot_init ?env = None" by (simp add: sample_env_def)
  have h2: "get_driver ?env = None" by (simp add: sample_env_def)
  have h3: "open_pyproject ?env = None" by (simp add: sample_env_def)
  have h4: "tomllib_load ?env = Inr (manifest sample_adapters)" by (simp add: sample_env_def)
  have h5: "adapters_of (manifest sample_adapters) = Inr (TArray sample_adapters)"
    by (simp add: sample_defs)
  have h6: "\<forall>d\<in>set sample_adapters. tolerated ?env d"
    by (simp add: sample_defs)
  have m: "length (filter (resolves ?env) sample_adapters) = 2"
    by (simp add: sample_defs)
  have n: "length sample_adapters = 3" by (simp add: sample_adapters_def)
  have b: "builtin_plugins_of (manifest sample_adapters) = Inr [TString ''echo''] \<and>
           load_builtin_plugins ?env [TString ''echo''] = None"
    by (simp add: sample_defs)
  have r: "load_from_toml ?env = None \<and> (is_main ?env \<longrightarrow> nonebot_run ?env = None)"
    by (simp add: sample_env_def)
  from registration_counts [OF h1 h2 h3 h4 h5 h6] m n b r show ?thesis by simp
qed

text \<open>
  C2, as stated, fails, in two ways.
  First list: the import of the first descriptor's module fails and the exception is
  caught; but the descriptor has no \<open>name\<close>, so nothing is logged, and the loop does not
  go on to the second descriptor, which would have resolved.
  Second list: the first descriptor has a name, and the import of its module raises
  \<open>SystemExit\<close>, which \<open>except Exception\<close> does not catch: again nothing is logged and
  the second descriptor is not tried.
\<close>

theorem failure_is_logged_counterexample:
  "try_body (sample_env []) (nameless ''nonebot.adapters.absent'') =
     ([CallImport (TString ''nonebot.adapters.absent'')],
      Inl (Raised True (''No module named '' @ quoted ''nonebot.adapters.absent''))) \<and>
   register_loop (sample_env []) init_state
     [nameless ''nonebot.adapters.absent'',
      descriptor ''Console'' ''nonebot.adapters.console''] =
   Uncaught (KeyError ''name'')
     \<lparr>calls = [CallImport (TString ''nonebot.adapters.absent'')],
      registered = [], logged = [], pyproject = None\<rparr> \<and>
   register_loop (sample_env []) init_state
     [descriptor ''Exiting'' ''exiting_module'',
      descriptor ''Console'' ''nonebot.adapters.console''] =
   Uncaught (Raised False ''1'')
     \<lparr>calls = [CallImport (TString ''exiting_module'')],
      registered = [], logged = [], pyproject = None\<rparr>"
  by (simp add: sample_env_def descriptor_def nameless_def try_body_def init_state_def)

text \<open>
  C2, amended. For every adapter descriptor that has a \<open>name\<close> and whose import, adapter
  lookup or registration fails with an exception derived from \<open>Exception\<close>: the exception
  is caught, one error message is logged, and the loop goes on with the next descriptor.
  The message stays in the log whatever happens later in the loop, and when the name is a
  string the message is \<open>Failed to register adapter\<close>, the name, a colon, and the text of
  the exception.
\<close>

theorem failure_is_logged:
  assumes tb: "try_body env d = (cs, Inl e)"
    and ex: "is_Exception e"
    and nm: "subscript d ''name'' = Inr n"
  shows "register_loop env s (d # rest) =
           register_loop env (log_error (failure_message env n e) (s\<lparr>calls := calls s @ cs\<rparr>)) rest \<and>
         failure_message env n e \<in> set (logged (state_of (register_loop env s (d # rest)))) \<and>
         (\<forall>name. n = TString name \<longrightarrow>
            failure_message env n e = ''Failed to register adapter '' @ name @ '': '' @ exn_str e)"
proof -
  let ?s1 = "log_error (failure_message env n e) (s\<lparr>calls := calls s @ cs\<rparr>)"
  have step: "register_loop env s (d # rest) = register_loop env ?s1 rest"
    using tb ex nm by simp
  from register_loop_logged [of env ?s1 rest]
  obtain ms where "logged (state_of (register_loop env ?s1 rest)) = logged ?s1 @ ms" by blast
  then have mem: "failure_message env n e \<in> set (logged (state_of (register_loop env s (d # rest))))"
    using step by (simp add: log_error_def)
  have msg: "\<forall>name. n = TString name \<longrightarrow>
      failure_message env n e = ''Failed to register adapter '' @ name @ '': '' @ exn_str e"
    by (simp add: failure_message_def py_format_def)
  from step mem msg show ?thesis by blast
qed

theorem failure_is_logged_witness:
  "register_loop (sample_env []) init_state
     [descriptor ''Ghost'' ''nonebot.adapters.ghost'', descriptor ''Console'' ''nonebot.adapters.console''] =
   Finished
     \<lparr>calls = [CallImport (TString ''nonebot.adapters.ghost''),
               CallLogError (''Failed to register adapter Ghost: No module named '' @ quoted ''nonebot.adapters.ghost''),
               CallImport (TString ''nonebot.adapters.console''),
               CallRegister ''nonebot.adapters.console.Adapter''],
      registered = [''nonebot.adapters.console.Adapter''],
      logged = [''Failed to register adapter Ghost: No module named '' @ quoted ''nonebot.adapters.ghost''],
      pyproject = None\<rparr>"
proof -
  let ?env = "sample_env []"
  let ?d = "descriptor ''Ghost'' ''nonebot.adapters.ghost''"
  let ?e = "Raised True (''No module named '' @ quoted ''nonebot.adapters.ghost'')"
  have h1: "try_body ?env ?d = ([CallImport (TString ''nonebot.adapters.ghost'')], Inl ?e)"
    by (simp add: sample_env_def descriptor_def try_body_def)
  have h2: "is_Exception ?e" by simp
  have h3: "subscript ?d ''name'' = Inr (TString ''Ghost'')" by (simp add: descriptor_def)
  from failure_is_logged [OF h1 h2 h3, of init_state "[descriptor ''Console'' ''nonebot.adapters.console'']"]
  show ?thesis
    by (simp add: sample_env_def descriptor_def try_body_def init_state_def log_error_def)
qed

text \<open>
  C4. When the lookup \<open>pyproject["tool"]["nonebot"]["adapters"]\<close> fails on the loaded
  manifest (a table on the way is missing), neither script runs to its end, and the run
  has made no call of the loop: no import, no \<open>driver.register_adapter\<close>, no log; no
  adapter is registered. When the framework started and the file opened, the run ends with
  the lookup's exception uncaught, right after the manifest was loaded.
\<close>

theorem missing_table_fails:
  assumes load: "tomllib_load env = Inr doc" and missing: "adapters_of doc = Inl e"
  shows "\<not> is_Finished (nbfile_bot env) \<and>
         (\<forall>c\<in>set (calls (state_of (nbfile_bot env))). \<not> is_loop_call c) \<and>
         registered (state_of (nbfile_bot env)) = [] \<and>
         \<not> is_Finished (templates_bot env) \<and>
         (\<forall>c\<in>set (calls (state_of (templates_bot env))). \<not> is_loop_call c) \<and>
         registered (state_of (templates_bot env)) = [] \<and>
         (nonebot_init env = None \<and> get_driver env = None \<and> open_pyproject env = None \<longrightarrow>
            nbfile_bot env = Uncaught e (loaded doc) \<and> templates_bot env = Uncaught e (loaded doc))"
proof -
  let ?n = "\<lambda>s. case nbfile_with env s of
       Uncaught e s' \<Rightarrow> Uncaught e s'
     | Finished s' \<Rightarrow> load_and_run env (Some ''__mp_main__:app'') s'"
  let ?t = "\<lambda>s. case templates_with env s of
       Uncaught e s' \<Rightarrow> Uncaught e s'
     | Finished s' \<Rightarrow> load_and_run env None s'"
  have n: "?n opened = Uncaught e (loaded doc)"
    by (simp add: nbfile_with_missing [OF load missing])
  have t: "?t opened = Uncaught e (loaded doc)"
    by (simp add: templates_with_missing [OF load missing])
  have nb: "\<not> is_Finished (nbfile_bot env) \<and>
         (\<forall>c\<in>set (calls (state_of (nbfile_bot env))). \<not> is_loop_call c) \<and>
         registered (state_of (nbfile_bot env)) = []"
    unfolding nbfile_bot_def by (rule startup_then_uncaught [of ?n, OF n])
  have tp: "\<not> is_Finished (templates_bot env) \<and>
         (\<forall>c\<in>set (calls (state_of (templates_bot env))). \<not> is_loop_call c) \<and>
         registered (state_of (templates_bot env)) = []"
    unfolding templates_bot_def by (rule startup_then_uncaught [of ?t, OF t])
  have ok: "nbfile_bot env = Uncaught e (loaded doc) \<and> templates_bot env = Uncaught e (loaded doc)"
    if up: "nonebot_init env = None" "get_driver env = None" "open_pyproject env = None"
    by (simp add: nbfile_bot_ok [OF up] templates_bot_ok [OF up]
        nbfile_with_missing [OF load missing] templates_with_missing [OF load missing])
  from nb tp ok show ?thesis by blast
qed

theorem missing_table_fails_witness:
  "nbfile_bot (sample_env no_adapters_doc) = Uncaught (KeyError ''adapters'') (loaded no_adapters_doc) \<and>
   templates_bot (sample_env no_adapters_doc) = Uncaught (KeyError ''adapters'') (loaded no_adapters_doc) \<and>
   \<not> is_Finished (nbfile_bot (sample_env no_adapters_doc)) \<and>
   registered (state_of (nbfile_bot (sample_env no_adapters_doc))) = []"
proof -
  let ?env = "sample_env no_adapters_doc"
  have h1: "tomllib_load ?env = Inr no_adapters_doc" by (simp add: sample_env_def)
  have h2: "adapters_of no_adapters_doc = Inl (KeyError ''adapters'')"
    by (simp add: no_adapters_doc_def adapters_of_def tool_nonebot_of_def)
  have h3: "nonebot_init ?env = None \<and> get_driver ?env = None \<and> open_pyproject ?env = None"
    by (simp add: sample_env_def)
  from missing_table_fails [OF h1 h2] h3 show ?thesis by blast
qed

text \<open>
  C6. On an empty adapter list the loop ends at once in the state it started in: no
  registration and no error. With such a manifest \<open>nbfile/bot.py\<close> leaves the
  \<open>with\<close> statement normally and goes on to call \<open>nonebot.load_from_toml\<close>;
  \<open>templates/bot.py\<close> goes on to its next statement, the loading of the built-in plugins.
  In both, the run registers nothing, logs nothing and never calls
  \<open>driver.register_adapter\<close>.
\<close>

theorem empty_adapter_list:
  "register_loop env s [] = Finished s \<and>
   (\<forall>doc. nonebot_init env = None \<and> get_driver env = None \<and> open_pyproject env = None \<and>
          tomllib_load env = Inr doc \<and> adapters_of doc = Inr (TArray []) \<longrightarrow>
      nbfile_with env opened = Finished (loaded doc) \<and>
      nbfile_bot env = load_and_run env (Some ''__mp_main__:app'') (loaded doc) \<and>
      CallLoadFromToml \<in> set (calls (state_of (nbfile_bot env))) \<and>
      registered (state_of (nbfile_bot env)) = [] \<and>
      logged (state_of (nbfile_bot env)) = [] \<and>
      (\<forall>c\<in>set (calls (state_of (nbfile_bot env))). \<not> is_register_call c) \<and>
      (\<forall>nb. tool_nonebot_of doc = Inr nb \<longrightarrow>
         templates_with env opened = templates_after_loop env nb (loaded doc)) \<and>
      registered (state_of (templates_bot env)) = [] \<and>
      logged (state_of (templates_bot env)) = [] \<and>
      (\<forall>c\<in>set (calls (state_of (templates_bot env))). \<not> is_register_call c))"
proof -
  have scripts:
     "nbfile_with env opened = Finished (loaded doc) \<and>
      nbfile_bot env = load_and_run env (Some ''__mp_main__:app'') (loaded doc) \<and>
      CallLoadFromToml \<in> set (calls (state_of (nbfile_bot env))) \<and>
      registered (state_of (nbfile_bot env)) = [] \<and>
      logged (state_of (nbfile_bot env)) = [] \<and>
      (\<forall>c\<in>set (calls (state_of (nbfile_bot env))). \<not> is_register_call c) \<and>
      (\<forall>nb. tool_nonebot_of doc = Inr nb \<longrightarrow>
         templates_with env opened = templates_after_loop env nb (loaded doc)) \<and>
      registered (state_of (templates_bot env)) = [] \<and>
      logged (state_of (templates_bot env)) = [] \<and>
      (\<forall>c\<in>set (calls (state_of (templates_bot env))). \<not> is_register_call c)"
    if up: "nonebot_init env = None" "get_driver env = None" "open_pyproject env = None"
      and load: "tomllib_load env = Inr doc" and ads: "adapters_of doc = Inr (TArray [])" for doc
  proof -
    have it: "iterate (TArray []) = Inr []" by (simp add: iterate_def)
    have nw: "nbfile_with env opened = Finished (loaded doc)"
      by (simp add: nbfile_with_loop [OF load ads it])
    have nb: "nbfile_bot env = load_and_run env (Some ''__mp_main__:app'') (loaded doc)"
      by (simp add: nbfile_bot_ok [OF up] nw)
    from load_and_run_frame [of env "Some ''__mp_main__:app''" "loaded doc"]
    obtain cs where ncalls: "calls (state_of (nbfile_bot env)) = calls (loaded doc) @ CallLoadFromToml # cs"
      and ncs: "\<forall>c\<in>set cs. is_after_loop_call c"
      and nreg: "registered (state_of (nbfile_bot env)) = []"
      and nlog: "logged (state_of (nbfile_bot env)) = []"
      by (auto simp add: nb loaded_def opened_def init_state_def)
    have nreach: "CallLoadFromToml \<in> set (calls (state_of (nbfile_bot env)))"
      using ncalls by simp
    have nno: "\<forall>c\<in>set (calls (state_of (nbfile_bot env))). \<not> is_register_call c"
      using ncalls ncs is_after_loop_call_not_read by (auto simp add: calls_loaded)
    from adapters_of_nb [OF ads] obtain tn where tn: "tool_nonebot_of doc = Inr tn"
      and sub: "subscript tn ''adapters'' = Inr (TArray [])" by blast
    have tw: "templates_with env opened = templates_after_loop env nb (loaded doc)"
      if "tool_nonebot_of doc = Inr nb" for nb
      using that tn by (simp add: templates_with_loop [OF load tn sub it])
    have tb: "templates_bot env =
        (case templates_after_loop env tn (loaded doc) of
           Uncaught e s' \<Rightarrow> Uncaught e s'
         | Finished s' \<Rightarrow> load_and_run env None s')"
      by (simp add: templates_bot_ok [OF up] tw [OF tn])
    have treg: "registered (state_of (templates_bot env)) = [] \<and> logged (state_of (templates_bot env)) = []"
    proof (cases "templates_after_loop env tn (loaded doc)")
      case (Uncaught e s')
      with templates_after_loop_frame [of env tn "loaded doc"] tb show ?thesis
        by (simp add: loaded_def opened_def init_state_def)
    next
      case (Finished s')
      with templates_after_loop_frame [of env tn "loaded doc"] load_and_run_frame [of env None s'] tb
      show ?thesis by (simp add: loaded_def opened_def init_state_def)
    qed
    from templates_bot_trace [OF up]
    obtain cs' where tcalls: "calls (state_of (templates_bot env)) =
        [CallInit, CallGetDriver, CallOpen, CallTomlLoad] @ cs'"
      and tcs: "\<forall>c\<in>set cs'. is_loop_call c \<or> is_after_loop_call c" by blast
    have tno: "\<forall>c\<in>set (calls (state_of (templates_bot env))). \<not> is_register_call c"
    proof (cases "templates_after_loop env tn (loaded doc)")
      case (Uncaught e s')
      from templates_after_loop_frame [of env tn "loaded doc"] Uncaught tb
      obtain cs where "calls (state_of (templates_bot env)) = calls (loaded doc) @ cs"
        and "\<forall>c\<in>set cs. is_after_loop_call c" by auto
      then show ?thesis using is_after_loop_call_not_read by (auto simp add: calls_loaded)
    next
      case (Finished s')
      from templates_after_loop_frame [of env tn "loaded doc"] Finished
      obtain cs where s': "calls s' = calls (loaded doc) @ cs"
        and cs: "\<forall>c\<in>set cs. is_after_loop_call c" by auto
      from load_and_run_frame [of env None s'] Finished tb
      obtain cs2 where "calls (state_of (templates_bot env)) = calls s' @ CallLoadFromToml # cs2"
        and "\<forall>c\<in>set cs2. is_after_loop_call c" by auto
      with s' cs show ?thesis using is_after_loop_call_not_read by (auto simp add: calls_loaded)
    qed
    from nw nb nreach nreg nlog nno tw treg tno show ?thesis by blast
  qed
  have "register_loop env s [] = Finished s" by simp
  with scripts show ?thesis by blast
qed

theorem empty_adapter_list_witness:
  "nbfile_bot (sample_env (manifest [])) =
     Finished \<lparr>calls = [CallInit, CallGetDriver, CallOpen, CallTomlLoad, CallLoadFromToml,
                        CallRun (Some ''__mp_main__:app'')],
               registered = [], logged = [], pyproject = Some (TTable (manifest []))\<rparr> \<and>
   templates_with (sample_env (manifest [])) opened =
     Finished \<lparr>calls = [CallInit, CallGetDriver, CallOpen, CallTomlLoad,
                        CallLoadBuiltin [TString ''echo'']],
               registered = [], logged = [], pyproject = Some (TTable (manifest []))\<rparr>"
proof -
  let ?env = "sample_env (manifest [])"
  have h: "nonebot_init ?env = None \<and> get_driver ?env = None \<and> open_pyproject ?env = None \<and>
           tomllib_load ?env = Inr (manifest []) \<and> adapters_of (manifest []) = Inr (TArray [])"
    by (simp add: sample_env_def manifest_def adapters_of_def tool_nonebot_of_def)
  have nb: "tool_nonebot_of (manifest []) =
      Inr (TTable [(''adapters'', TArray []), (''builtin_plugins'', TArray [TString ''echo''])])"
    by (simp add: manifest_def tool_nonebot_of_def)
  from empty_adapter_list [of ?env init_state] h nb
  have "nbfile_bot ?env = load_and_run ?env (Some ''__mp_main__:app'') (loaded (manifest []))"
    and "templates_with ?env opened =
      templates_after_loop ?env
        (TTable [(''adapters'', TArray []), (''builtin_plugins'', TArray [TString ''echo''])])
        (loaded (manifest []))"
    by blast+
  then show ?thesis
    by (simp add: load_and_run_def templates_after_loop_def call_def star_args_def
        sample_env_def loaded_def opened_def init_state_def)
qed

text \<open>
  C7, as stated, fails. In a run that gets past the loop the manifest is read twice: once
  by the script's \<open>tomllib.load(f)\<close>, and once more inside the script's call
  \<open>nonebot.load_from_toml("pyproject.toml")\<close>, which is given the file's name and has the
  framework read the same file.
\<close>

theorem manifest_read_once_counterexample:
  "filter is_read (calls (state_of (nbfile_bot (sample_env (manifest sample_adapters))))) =
     [CallTomlLoad, CallLoadFromToml] \<and>
   filter is_read (calls (state_of (templates_bot (sample_env (manifest sample_adapters))))) =
     [CallTomlLoad, CallLoadFromToml]"
  by (simp add: sample_defs nbfile_bot_def templates_bot_def startup_def call_def nbfile_with_def
      templates_with_def templates_after_loop_def load_and_run_def log_error_def init_state_def Let_def)

text \<open>
  C7, amended. The script itself loads the manifest, with \<open>tomllib.load\<close>, at most once
  in any run, and exactly once when the framework started and the file opened: as the
  fourth call of the process, after \<open>nonebot.init\<close>, \<open>nonebot.get_driver\<close> and \<open>open\<close>,
  and before any import, registration or plugin loading. The only other read is the one
  inside \<open>nonebot.load_from_toml\<close>, which the script calls once, after the \<open>with\<close>
  statement, when that statement ends normally: a run reads the manifest at most twice,
  first by \<open>tomllib.load\<close>, then by the framework. The value \<open>tomllib.load\<close> returned is
  still the value of \<open>pyproject\<close> when the run ends, however it ends: nothing in the
  scripts changes it.
\<close>

theorem manifest_reads:
  "length (filter is_tomllib_load (calls (state_of (nbfile_bot env)))) \<le> 1 \<and>
   length (filter is_tomllib_load (calls (state_of (templates_bot env)))) \<le> 1 \<and>
   length (filter is_read (calls (state_of (nbfile_bot env)))) \<le> 2 \<and>
   length (filter is_read (calls (state_of (templates_bot env)))) \<le> 2 \<and>
   (nonebot_init env = None \<and> get_driver env = None \<and> open_pyproject env = None \<longrightarrow>
      length (filter is_tomllib_load (calls (state_of (nbfile_bot env)))) = 1 \<and>
      take 4 (calls (state_of (nbfile_bot env))) = [CallInit, CallGetDriver, CallOpen, CallTomlLoad] \<and>
      filter is_read (calls (state_of (nbfile_bot env))) =
        (if is_Finished (nbfile_with env opened) then [CallTomlLoad, CallLoadFromToml]
         else [CallTomlLoad]) \<and>
      length (filter is_tomllib_load (calls (state_of (templates_bot env)))) = 1 \<and>
      take 4 (calls (state_of (templates_bot env))) = [CallInit, CallGetDriver, CallOpen, CallTomlLoad] \<and>
      filter is_read (calls (state_of (templates_bot env))) =
        (if is_Finished (templates_with env opened) then [CallTomlLoad, CallLoadFromToml]
         else [CallTomlLoad]) \<and>
      (\<forall>doc. tomllib_load env = Inr doc \<longrightarrow>
         pyproject (state_of (nbfile_bot env)) = Some (TTable doc) \<and>
         pyproject (state_of (templates_bot env)) = Some (TTable doc)))"
proof -
  let ?n = "\<lambda>s. case nbfile_with env s of
       Uncaught e s' \<Rightarrow> Uncaught e s'
     | Finished s' \<Rightarrow> load_and_run env (Some ''__mp_main__:app'') s'"
  let ?t = "\<lambda>s. case templates_with env s of
       Uncaught e s' \<Rightarrow> Uncaught e s'
     | Finished s' \<Rightarrow> load_and_run env None s'"
  have nr: "filter is_read (calls (state_of (?n opened))) =
      (if is_Finished (nbfile_with env opened) then [CallTomlLoad, CallLoadFromToml]
       else [CallTomlLoad])"
    by (rule then_load_and_run_reads [OF nbfile_with_reads])
  have tr: "filter is_read (calls (state_of (?t opened))) =
      (if is_Finished (templates_with env opened) then [CallTomlLoad, CallLoadFromToml]
       else [CallTomlLoad])"
    by (rule then_load_and_run_reads [OF templates_with_reads])
  have ok: "length (filter is_tomllib_load (calls (state_of (nbfile_bot env)))) = 1 \<and>
      take 4 (calls (state_of (nbfile_bot env))) = [CallInit, CallGetDriver, CallOpen, CallTomlLoad] \<and>
      filter is_read (calls (state_of (nbfile_bot env))) =
        (if is_Finished (nbfile_with env opened) then [CallTomlLoad, CallLoadFromToml]
         else [CallTomlLoad]) \<and>
      length (filter is_tomllib_load (calls (state_of (templates_bot env)))) = 1 \<and>
      take 4 (calls (state_of (templates_bot env))) = [CallInit, CallGetDriver, CallOpen, CallTomlLoad] \<and>
      filter is_read (calls (state_of (templates_bot env))) =
        (if is_Finished (templates_with env opened) then [CallTomlLoad, CallLoadFromToml]
         else [CallTomlLoad]) \<and>
      (\<forall>doc. tomllib_load env = Inr doc \<longrightarrow>
         pyproject (state_of (nbfile_bot env)) = Some (TTable doc) \<and>
         pyproject (state_of (templates_bot env)) = Some (TTable doc))"
    if up: "nonebot_init env = None" "get_driver env = None" "open_pyproject env = None"
  proof -
    note n = reads_of_trace [OF nbfile_bot_trace [OF up]]
    note t = reads_of_trace [OF templates_bot_trace [OF up]]
    have nr': "filter is_read (calls (state_of (nbfile_bot env))) =
        (if is_Finished (nbfile_with env opened) then [CallTomlLoad, CallLoadFromToml]
         else [CallTomlLoad])"
      using nr by (simp only: nbfile_bot_ok [OF up])
    have tr': "filter is_read (calls (state_of (templates_bot env))) =
        (if is_Finished (templates_with env opened) then [CallTomlLoad, CallLoadFromToml]
         else [CallTomlLoad])"
      using tr by (simp only: templates_bot_ok [OF up])
    have p: "pyproject (state_of (nbfile_bot env)) = Some (TTable doc) \<and>
             pyproject (state_of (templates_bot env)) = Some (TTable doc)"
      if load: "tomllib_load env = Inr doc" for doc
      using nbfile_with_pyproject [OF load] templates_with_pyproject [OF load]
      by (simp only: nbfile_bot_ok [OF up] templates_bot_ok [OF up] then_load_and_run_pyproject)
    from n t nr' tr' p show ?thesis by blast
  qed
  have n_le: "length (filter is_tomllib_load (calls (state_of (nbfile_bot env)))) \<le> 1"
    unfolding nbfile_bot_def
    by (rule startup_reads_le, rule then_load_and_run, rule nbfile_with_trace_weak)
  have t_le: "length (filter is_tomllib_load (calls (state_of (templates_bot env)))) \<le> 1"
    unfolding templates_bot_def
    by (rule startup_reads_le, rule then_load_and_run, rule templates_with_trace)
  have n_le2: "length (filter is_read (calls (state_of (nbfile_bot env)))) \<le> 2"
    using startup_reads [of ?n _ env, OF nr] by (auto simp add: nbfile_bot_def split: if_splits)
  have t_le2: "length (filter is_read (calls (state_of (templates_bot env)))) \<le> 2"
    using startup_reads [of ?t _ env, OF tr] by (auto simp add: templates_bot_def split: if_splits)
  from ok n_le t_le n_le2 t_le2 show ?thesis by blast
qed

theorem manifest_reads_witness:
  "length (filter is_tomllib_load (calls (state_of (nbfile_bot (sample_env (manifest sample_adapters)))))) = 1 \<and>
   length (filter is_tomllib_load (calls (state_of (templates_bot (sample_env (manifest sample_adapters)))))) = 1 \<and>
   filter is_read (calls (state_of (nbfile_bot (sample_env (manifest mixed_adapters))))) =
     [CallTomlLoad] \<and>
   filter is_read (calls (state_of (templates_bot (sample_env (manifest mixed_adapters))))) =
     [CallTomlLoad] \<and>
   pyproject (state_of (nbfile_bot (sample_env (manifest sample_adapters)))) =
     Some (TTable (manifest sample_adapters)) \<and>
   pyproject (state_of (templates_bot (sample_env (manifest sample_adapters)))) =
     Some (TTable (manifest sample_adapters))"
proof -
  let ?env = "sample_env (manifest sample_adapters)"
  let ?env2 = "sample_env (manifest mixed_adapters)"
  have h: "nonebot_init ?env = None \<and> get_driver ?env = None \<and> open_pyproject ?env = None"
    by (simp add: sample_env_def)
  have l: "tomllib_load ?env = Inr (manifest sample_adapters)" by (simp add: sample_env_def)
  have h2: "nonebot_init ?env2 = None \<and> get_driver ?env2 = None \<and> open_pyproject ?env2 = None"
    by (simp add: sample_env_def)
  have f: "\<not> is_Finished (nbfile_with ?env2 opened) \<and> \<not> is_Finished (templates_with ?env2 opened)"
    by (simp add: sample_defs mixed_adapters_def nameless_def nbfile_with_def templates_with_def
        opened_def init_state_def Let_def)
  from manifest_reads [of ?env] h l
  have a: "length (filter is_tomllib_load (calls (state_of (nbfile_bot ?env)))) = 1 \<and>
     length (filter is_tomllib_load (calls (state_of (templates_bot ?env)))) = 1 \<and>
     pyproject (state_of (nbfile_bot ?env)) = Some (TTable (manifest sample_adapters)) \<and>
     pyproject (state_of (templates_bot ?env)) = Some (TTable (manifest sample_adapters))"
    by blast
  from manifest_reads [of ?env2] h2 f
  have b: "filter is_read (calls (state_of (nbfile_bot ?env2))) = [CallTomlLoad] \<and>
     filter is_read (calls (state_of (templates_bot ?env2))) = [CallTomlLoad]"
    by simp
  from a b show ?thesis by blast
qed

text \<open>
  C8, as stated, fails, in two ways.
  First list: the first descriptor has no \<open>name\<close> and the import of its module raises
  \<open>SystemExit\<close>. \<open>except Exception\<close> does not catch it, the logging statement is never
  reached, and the uncaught exception is the \<open>SystemExit\<close>, not a \<open>KeyError\<close>.
  Second list: the first descriptor is a bare string, which has no \<open>name\<close> either. The
  body of the \<open>try\<close> fails on \<open>adapter["module_name"]\<close> with a \<open>TypeError\<close>, which is
  caught; the logging statement then raises \<open>TypeError\<close>, not \<open>KeyError\<close>.
\<close>

theorem nameless_failure_counterexample:
  "subscript (nameless ''exiting_module'') ''name'' = Inl (KeyError ''name'') \<and>
   register_loop (sample_env []) init_state
     [nameless ''exiting_module'', descriptor ''Console'' ''nonebot.adapters.console''] =
   Uncaught (Raised False ''1'')
     \<lparr>calls = [CallImport (TString ''exiting_module'')],
      registered = [], logged = [], pyproject = None\<rparr> \<and>
   register_loop (sample_env []) init_state
     [TString ''nonebot.adapters.console'', descriptor ''Console'' ''nonebot.adapters.console''] =
   Uncaught (TypeError (''string indices must be integers, not '' @ quoted ''str''))
     \<lparr>calls = [], registered = [], logged = [], pyproject = None\<rparr>"
  by (simp add: sample_env_def descriptor_def nameless_def try_body_def init_state_def)

text \<open>
  C8, amended. When the body of the \<open>try\<close> fails on a descriptor with an exception that
  the handler catches (one derived from \<open>Exception\<close>) and \<open>adapter['name']\<close> raises on
  that descriptor, the logging statement inside the handler raises that exception,
  uncaught: a \<open>KeyError\<close> when the descriptor is a table without the key \<open>name\<close> (a
  \<open>TypeError\<close> when it is not a table). The loop stops there, with the later descriptors
  untried and nothing logged for this one, and both scripts end with that exception,
  without any of the calls that follow the loop.
\<close>

theorem nameless_failure_stops:
  assumes tb: "try_body env d = (cs, Inl e)"
    and ex: "is_Exception e"
    and nm: "subscript d ''name'' = Inl e2"
  shows "register_loop env s (d # rest) = Uncaught e2 (s\<lparr>calls := calls s @ cs\<rparr>) \<and>
         (\<forall>kvs. d = TTable kvs \<longrightarrow> e2 = KeyError ''name'') \<and>
         ((\<forall>kvs. d \<noteq> TTable kvs) \<longrightarrow> (\<exists>m. e2 = TypeError m)) \<and>
         (\<forall>doc ds.
            nonebot_init env = None \<and> get_driver env = None \<and> open_pyproject env = None \<and>
            tomllib_load env = Inr doc \<and> adapters_of doc = Inr (TArray (ds @ d # rest)) \<and>
            (\<forall>d'\<in>set ds. tolerated env d') \<longrightarrow>
            (\<exists>s'. nbfile_bot env = Uncaught e2 s' \<and>
                  (\<forall>c\<in>set (calls s'). \<not> is_after_loop_call c)) \<and>
            (\<exists>s'. templates_bot env = Uncaught e2 s' \<and>
                  (\<forall>c\<in>set (calls s'). \<not> is_after_loop_call c)))"
proof -
  have step: "register_loop env s (d # rest) = Uncaught e2 (s\<lparr>calls := calls s @ cs\<rparr>)" for s
    using tb ex nm by simp
  have key: "\<forall>kvs. d = TTable kvs \<longrightarrow> e2 = KeyError ''name''"
    using nm by (auto split: option.splits)
  have other: "(\<forall>kvs. d \<noteq> TTable kvs) \<longrightarrow> (\<exists>m. e2 = TypeError m)"
    using nm by (cases d) auto
  have scripts:
    "(\<exists>s'. nbfile_bot env = Uncaught e2 s' \<and>
           (\<forall>c\<in>set (calls s'). \<not> is_after_loop_call c)) \<and>
     (\<exists>s'. templates_bot env = Uncaught e2 s' \<and>
           (\<forall>c\<in>set (calls s'). \<not> is_after_loop_call c))"
    if init: "nonebot_init env = None" and drv: "get_driver env = None"
      and opn: "open_pyproject env = None" and load: "tomllib_load env = Inr doc"
      and ads: "adapters_of doc = Inr (TArray (ds @ d # rest))"
      and tol: "\<forall>d'\<in>set ds. tolerated env d'" for doc ds
  proof -
    let ?all = "ds @ d # rest"
    have it: "iterate (TArray ?all) = Inr ?all" by (simp add: iterate_def)
    from register_loop_tolerated [OF tol, of "loaded doc"]
    obtain s1 where pre: "register_loop env (loaded doc) ds = Finished s1" by blast
    have loop: "register_loop env (loaded doc) ?all =
        Uncaught e2 (s1\<lparr>calls := calls s1 @ cs\<rparr>)"
    proof -
      have "register_loop env (loaded doc) ?all = register_loop env s1 (d # rest)"
        by (simp only: register_loop_append pre result.case)
      then show ?thesis by (simp only: step)
    qed
    from register_loop_trace [of env "loaded doc" ?all] loop
    obtain cs' where tr: "calls (s1\<lparr>calls := calls s1 @ cs\<rparr>) = calls (loaded doc) @ cs'"
      and lc: "\<forall>c\<in>set cs'. is_loop_call c" by auto
    have clean: "\<forall>c\<in>set (calls (s1\<lparr>calls := calls s1 @ cs\<rparr>)). \<not> is_after_loop_call c"
    proof
      fix c assume "c \<in> set (calls (s1\<lparr>calls := calls s1 @ cs\<rparr>))"
      with tr have "c \<in> set (calls (loaded doc)) \<or> c \<in> set cs'" by auto
      then show "\<not> is_after_loop_call c"
      proof
        assume "c \<in> set (calls (loaded doc))"
        then show ?thesis by (auto simp add: loaded_def)
      next
        assume "c \<in> set cs'"
        with lc is_loop_call_not_read [of c] show ?thesis by blast
      qed
    qed
    have nb: "nbfile_bot env = Uncaught e2 (s1\<lparr>calls := calls s1 @ cs\<rparr>)"
      by (simp add: nbfile_bot_def startup_ok [OF init drv opn] nbfile_with_loop [OF load ads it] loop)
    from adapters_of_nb [OF ads] obtain tn where tn: "tool_nonebot_of doc = Inr tn"
      and sub: "subscript tn ''adapters'' = Inr (TArray ?all)" by blast
    have tp: "templates_bot env = Uncaught e2 (s1\<lparr>calls := calls s1 @ cs\<rparr>)"
      by (simp add: templates_bot_def startup_ok [OF init drv opn]
          templates_with_loop [OF load tn sub it] loop)
    from nb tp clean show ?thesis by blast
  qed
  from step key other scripts show ?thesis by blast
qed

theorem nameless_failure_stops_witness:
  "register_loop (sample_env (manifest mixed_adapters)) init_state
     [nameless ''nonebot.adapters.ghost'', descriptor ''Console'' ''nonebot.adapters.console''] =
   Uncaught (KeyError ''name'')
     \<lparr>calls = [CallImport (TString ''nonebot.adapters.ghost'')],
      registered = [], logged = [], pyproject = None\<rparr> \<and>
   \<not> is_Finished (nbfile_bot (sample_env (manifest mixed_adapters))) \<and>
   \<not> is_Finished (templates_bot (sample_env (manifest mixed_adapters))) \<and>
   register_loop (sample_env (manifest mixed_adapters)) init_state
     [TString ''plain_module'', descriptor ''Console'' ''nonebot.adapters.console''] =
   Uncaught (TypeError (''string indices must be integers, not '' @ quoted ''str''))
     \<lparr>calls = [], registered = [], logged = [], pyproject = None\<rparr>"
proof -
  let ?env = "sample_env (manifest mixed_adapters)"
  let ?t = "TypeError (''string indices must be integers, not '' @ quoted ''str'')"
  have g1: "try_body ?env (TString ''plain_module'') = ([], Inl ?t)"
    by (simp add: try_body_def)
  have g2: "is_Exception ?t" by simp
  have g3: "subscript (TString ''plain_module'') ''name'' = Inl ?t" by simp
  from nameless_failure_stops [OF g1 g2 g3, of init_state "[descriptor ''Console'' ''nonebot.adapters.console'']"]
  have str: "register_loop ?env init_state
      [TString ''plain_module'', descriptor ''Console'' ''nonebot.adapters.console''] =
      Uncaught ?t (init_state\<lparr>calls := calls init_state @ []\<rparr>)"
    by blast
  let ?d = "nameless ''nonebot.adapters.ghost''"
  let ?rest = "[descriptor ''Console'' ''nonebot.adapters.console'']"
  let ?e = "Raised True (''No module named '' @ quoted ''nonebot.adapters.ghost'')"
  have h1: "try_body ?env ?d = ([CallImport (TString ''nonebot.adapters.ghost'')], Inl ?e)"
    by (simp add: sample_env_def nameless_def try_body_def)
  have h2: "is_Exception ?e" by simp
  have h3: "subscript ?d ''name'' = Inl (KeyError ''name'')"
    by (simp add: nameless_def)
  have up: "nonebot_init ?env = None \<and> get_driver ?env = None \<and> open_pyproject ?env = None \<and>
     tomllib_load ?env = Inr (manifest mixed_adapters)"
    by (simp add: sample_env_def)
  have ads: "adapters_of (manifest mixed_adapters) =
     Inr (TArray ([descriptor ''OneBot V11'' ''nonebot.adapters.onebot.v11''] @ ?d # ?rest))"
    by (simp add: manifest_def mixed_adapters_def adapters_of_def tool_nonebot_of_def)
  have tol: "\<forall>d'\<in>set [descriptor ''OneBot V11'' ''nonebot.adapters.onebot.v11'']. tolerated ?env d'"
    by (simp add: sample_env_def descriptor_def tolerated_def try_body_def)
  note inst = nameless_failure_stops [OF h1 h2 h3, of init_state ?rest]
  from inst have loop: "register_loop ?env init_state (?d # ?rest) =
      Uncaught (KeyError ''name'') (init_state\<lparr>calls := calls init_state @ [CallImport (TString ''nonebot.adapters.ghost'')]\<rparr>)"
    by blast
  from inst up ads tol
  have "(\<exists>s'. nbfile_bot ?env = Uncaught (KeyError ''name'') s' \<and>
                  (\<forall>c\<in>set (calls s'). \<not> is_after_loop_call c)) \<and>
        (\<exists>s'. templates_bot ?env = Uncaught (KeyError ''name'') s' \<and>
                  (\<forall>c\<in>set (calls s'). \<not> is_after_loop_call c))"
    by blast
  then have "\<not> is_Finished (nbfile_bot ?env) \<and> \<not> is_Finished (templates_bot ?env)"
    by auto
  with loop str show ?thesis by (simp add: init_state_def)
qed

end
